theory Spec2Isabelle
  imports Main "HOL-Library.Sublist" "HOL-Library.Stream"
begin

section \<open>Text primitives of the Python runtime\<close>

text \<open>
  Python strings are modelled as \<^typ>\<open>string\<close>, one \<^typ>\<open>char\<close> per character, and the
  model is that of messages made of ASCII characters: \<open>str.lower\<close>, \<open>\s\<close>, \<open>\d\<close>, \<open>\w\<close> and
  case-insensitive matching are given their ASCII meaning.  Characters outside ASCII that
  occur in the fixed texts of the program (the emoji of the responses) are written as
  their UTF-8 bytes.
\<close>

definition lower_char :: "char \<Rightarrow> char" where
  "lower_char c = (let n = (of_char c :: nat) in if 65 \<le> n \<and> n \<le> 90 then char_of (n + 32) else c)"

text \<open>\<open>text.lower()\<close>\<close>

definition lower :: "string \<Rightarrow> string" where
  "lower s = map lower_char s"

text \<open>\<open>kw in t\<close> on strings: \<open>kw\<close> occurs in \<open>t\<close> as a contiguous substring.\<close>

fun contains :: "string \<Rightarrow> string \<Rightarrow> bool" where
  "contains kw [] = (kw = [])"
| "contains kw (c # cs) = (prefix kw (c # cs) \<or> contains kw cs)"

definition is_digit :: "char \<Rightarrow> bool" where
  "is_digit c = (let n = (of_char c :: nat) in 48 \<le> n \<and> n \<le> 57)"

text \<open>The characters \<open>\s\<close> matches and \<open>str.strip()\<close> removes, below 128.\<close>

definition is_space :: "char \<Rightarrow> bool" where
  "is_space c = (let n = (of_char c :: nat) in (9 \<le> n \<and> n \<le> 13) \<or> (28 \<le> n \<and> n \<le> 32))"

text \<open>The characters \<open>\w\<close> matches, below 128.\<close>

definition is_word :: "char \<Rightarrow> bool" where
  "is_word c = (let n = (of_char c :: nat) in
     (48 \<le> n \<and> n \<le> 57) \<or> (65 \<le> n \<and> n \<le> 90) \<or> n = 95 \<or> (97 \<le> n \<and> n \<le> 122))"

text \<open>\<open>s.strip()\<close>\<close>

definition strip :: "string \<Rightarrow> string" where
  "strip s = rev (dropWhile is_space (rev (dropWhile is_space s)))"

text \<open>\<open>int(s)\<close> on a string of decimal digits, and \<open>str(n)\<close> on a natural number.\<close>

definition int_of_digits :: "string \<Rightarrow> nat" where
  "int_of_digits s = foldl (\<lambda>a c. 10 * a + (of_char c - 48)) 0 s"

fun str_nat :: "nat \<Rightarrow> string" where
  "str_nat n = (if n < 10 then [char_of (48 + n)]
                else str_nat (n div 10) @ [char_of (48 + n mod 10)])"

declare str_nat.simps [simp del]

text \<open>\<open>'%0kd' % n\<close>: decimal, padded with zeros on the left to width \<open>k\<close>.\<close>

definition zero_pad :: "nat \<Rightarrow> nat \<Rightarrow> string" where
  "zero_pad k n = replicate (k - length (str_nat n)) (CHR ''0'') @ str_nat n"

text \<open>\<open>sep.join(xs)\<close>\<close>

fun join :: "string \<Rightarrow> string list \<Rightarrow> string" where
  "join sep [] = []"
| "join sep [x] = x"
| "join sep (x # y # ys) = x @ sep @ join sep (y # ys)"


section \<open>The regular expressions of the program\<close>

text \<open>
  The patterns handed to \<open>re.search\<close> are built from literals, greedy repetitions of one
  character class, \<open>\b\<close>, sequences, alternatives, optional parts and capturing groups.
  The matcher below is the backtracking matcher of Python's \<open>re\<close> for this fragment:
  alternatives are tried from left to right, a repetition first takes as many characters
  as it can and gives them back one at a time, and the search takes the leftmost position
  at which a match exists.
\<close>

datatype cclass = Digit | Space | Dot

fun in_class :: "cclass \<Rightarrow> char \<Rightarrow> bool" where
  "in_class Digit c = is_digit c"
| "in_class Space c = is_space c"
| "in_class Dot c = (c \<noteq> CHR 0x0A)"

datatype rx =
    Lit string
  | Rep cclass nat "nat option"
  | WordB
  | Seq "rx list"
  | Alt "rx list"
  | Opt rx
  | Grp nat rx

text \<open>
  A position of the matcher: the character before it (none at the start of the text),
  the text from it on, and the groups captured so far (the latest capture first).
\<close>

type_synonym mstate = "char option \<times> string \<times> (nat \<times> string) list"

definition advance :: "nat \<Rightarrow> mstate \<Rightarrow> mstate" where
  "advance n st = (case st of (p, s, g) \<Rightarrow>
     ((if n = 0 then p else Some (last (take n s))), drop n s, g))"

definition lit_ok :: "bool \<Rightarrow> string \<Rightarrow> string \<Rightarrow> bool" where
  "lit_ok ic w s = (length w \<le> length s \<and>
     (if ic then lower (take (length w) s) = lower w else take (length w) s = w))"

definition at_boundary :: "char option \<Rightarrow> string \<Rightarrow> bool" where
  "at_boundary p s =
     ((case p of None \<Rightarrow> False | Some c \<Rightarrow> is_word c) \<noteq>
      (case s of [] \<Rightarrow> False | c # _ \<Rightarrow> is_word c))"

text \<open>Group \<open>i\<close> captures the text between the position \<open>st\<close> and the later position \<open>st'\<close>.\<close>

definition capture :: "nat \<Rightarrow> mstate \<Rightarrow> mstate \<Rightarrow> mstate" where
  "capture i st st' = (case st' of (p', s', g') \<Rightarrow>
     (p', s', (i, take (length (fst (snd st)) - length s') (fst (snd st))) # g'))"

text \<open>
  \<open>rmatch ic r st\<close> lists the positions at which a match of \<open>r\<close> starting at \<open>st\<close> can
  end, in the order in which the backtracking matcher tries them; the head is the one it
  takes when nothing after \<open>r\<close> fails.  \<open>ic\<close> is \<open>re.IGNORECASE\<close>.
\<close>

fun rmatch :: "bool \<Rightarrow> rx \<Rightarrow> mstate \<Rightarrow> mstate list" where
  "rmatch ic (Lit w) st = (if lit_ok ic w (fst (snd st)) then [advance (length w) st] else [])"
| "rmatch ic (Rep c lo hi) st =
     (let n = length (takeWhile (in_class c) (fst (snd st)));
          m = (case hi of None \<Rightarrow> n | Some h \<Rightarrow> min n h)
      in map (\<lambda>j. advance j st) (rev [lo ..< Suc m]))"
| "rmatch ic WordB st = (if at_boundary (fst st) (fst (snd st)) then [st] else [])"
| "rmatch ic (Seq rs) st = foldl (\<lambda>sts r. concat (map (rmatch ic r) sts)) [st] rs"
| "rmatch ic (Alt rs) st = concat (map (\<lambda>r. rmatch ic r st) rs)"
| "rmatch ic (Opt r) st = rmatch ic r st @ [st]"
| "rmatch ic (Grp i r) st = map (capture i st) (rmatch ic r st)"

text \<open>
  \<open>re.search(pattern, s)\<close>: the groups of the leftmost match, or \<open>None\<close>.
\<close>

fun search_from :: "bool \<Rightarrow> rx \<Rightarrow> char option \<Rightarrow> string \<Rightarrow> (nat \<times> string) list option" where
  "search_from ic r p [] =
     (case rmatch ic r (p, [], []) of [] \<Rightarrow> None | st # _ \<Rightarrow> Some (snd (snd st)))"
| "search_from ic r p (c # cs) =
     (case rmatch ic r (p, c # cs, []) of
        [] \<Rightarrow> search_from ic r (Some c) cs
      | st # _ \<Rightarrow> Some (snd (snd st)))"

definition re_search :: "bool \<Rightarrow> rx \<Rightarrow> string \<Rightarrow> (nat \<times> string) list option" where
  "re_search ic r s = search_from ic r None s"

text \<open>\<open>m.group(i)\<close>: \<open>None\<close> when the group took no part in the match.\<close>

definition group :: "(nat \<times> string) list \<Rightarrow> nat \<Rightarrow> string option" where
  "group m i = map_of m i"


section \<open>Dates and times\<close>

text \<open>
  A naive \<open>datetime.datetime\<close>, as \<open>datetime.utcnow()\<close> returns it.  The model does not
  bound the year (Python stops at 9999).
\<close>

record datetime =
  year :: nat
  month :: nat
  day :: nat
  hour :: nat
  minute :: nat
  second :: nat
  microsecond :: nat

definition is_leap :: "nat \<Rightarrow> bool" where
  "is_leap y = (if y mod 100 = 0 then y mod 400 = 0 else y mod 4 = 0)"

definition days_in_month :: "nat \<Rightarrow> nat \<Rightarrow> nat" where
  "days_in_month y m =
     (if m = 2 then (if is_leap y then 29 else 28)
      else if m = 4 \<or> m = 6 \<or> m = 9 \<or> m = 11 then 30 else 31)"

text \<open>\<open>d + datetime.timedelta(days=1)\<close>\<close>

definition add_day :: "datetime \<Rightarrow> datetime" where
  "add_day d =
     (if day d < days_in_month (year d) (month d) then d\<lparr>day := day d + 1\<rparr>
      else if month d < 12 then d\<lparr>month := month d + 1, day := 1\<rparr>
      else d\<lparr>year := year d + 1, month := 1, day := 1\<rparr>)"

text \<open>\<open>d + datetime.timedelta(minutes=1)\<close>\<close>

definition add_minute :: "datetime \<Rightarrow> datetime" where
  "add_minute d =
     (if minute d < 59 then d\<lparr>minute := minute d + 1\<rparr>
      else if hour d < 23 then d\<lparr>hour := hour d + 1, minute := 0\<rparr>
      else add_day (d\<lparr>hour := 0, minute := 0\<rparr>))"

fun lex_le :: "nat list \<Rightarrow> nat list \<Rightarrow> bool" where
  "lex_le [] ys = True"
| "lex_le (x # xs) [] = False"
| "lex_le (x # xs) (y # ys) = (x < y \<or> (x = y \<and> lex_le xs ys))"

text \<open>\<open>a <= b\<close> on datetimes\<close>

definition dt_le :: "datetime \<Rightarrow> datetime \<Rightarrow> bool" where
  "dt_le a b = lex_le [year a, month a, day a, hour a, minute a, second a, microsecond a]
                      [year b, month b, day b, hour b, minute b, second b, microsecond b]"

text \<open>\<open>d.isoformat()\<close>: the microseconds are printed only when they are not zero.\<close>

definition isoformat :: "datetime \<Rightarrow> string" where
  "isoformat d =
     zero_pad 4 (year d) @ ''-'' @ zero_pad 2 (month d) @ ''-'' @ zero_pad 2 (day d) @ ''T'' @
     zero_pad 2 (hour d) @ '':'' @ zero_pad 2 (minute d) @ '':'' @ zero_pad 2 (second d) @
     (if microsecond d = 0 then [] else ''.'' @ zero_pad 6 (microsecond d))"

text \<open>\<open>d.strftime('%Y-%m-%d %H:%M')\<close>\<close>

definition strftime_ymd_hm :: "datetime \<Rightarrow> string" where
  "strftime_ymd_hm d =
     zero_pad 4 (year d) @ ''-'' @ zero_pad 2 (month d) @ ''-'' @ zero_pad 2 (day d) @ '' '' @
     zero_pad 2 (hour d) @ '':'' @ zero_pad 2 (minute d)"


section \<open>The in-memory state\<close>

datatype exn = KeyError | ValueError | TypeError | AttributeError | RuntimeError | BadRequest | ModelError

text \<open>One element of a conversation history: \<open>{"role": ..., "parts": [...]}\<close>.\<close>

record turn =
  role :: string
  parts :: "string list"

text \<open>
  The lists of \<open>patient_logs[sid]\<close> hold two shapes of dictionary:
  \<open>{"time", "value"}\<close>, appended by \<open>log_patient_data\<close>, and
  \<open>{"id", "when", "text", "sent"}\<close>, appended under \<open>"reminders"\<close>.
\<close>

datatype log_item =
    LogEntry (entry_time: string) (entry_value: string)
  | ReminderEntry (entry_id: string) (entry_when: string) (entry_text: string) (entry_sent: bool)

text \<open>
  \<open>{"time", "severity", "reason"}\<close>; severity and reason are the two components of what
  \<open>triage_simple\<close> returns.
\<close>

record alert =
  alert_time :: string
  severity :: "string option"
  reason :: "string option"

text \<open>A value of \<open>reminders_store\<close>: \<open>{"session_id", "when", "text", "sent"}\<close>.\<close>

record reminder =
  rem_session_id :: string
  rem_when :: string
  rem_text :: string
  rem_sent :: bool

text \<open>A job of the scheduler: its run date and the arguments of \<open>schedule_reminder_job\<close>.\<close>

record job =
  run_date :: datetime
  job_reminder_id :: string
  job_session_id :: string
  job_when_iso :: string
  job_text :: string

text \<open>
  The module's global dictionaries, the jobs handed to the scheduler, the tokens that
  \<open>secrets.token_hex\<close> will return, and the Flask session of the request being handled:
  \<open>flask_session\<close> is \<open>None\<close> outside a request (on the scheduler's thread) and
  \<open>Some c\<close> inside one, \<open>c\<close> being \<open>session.get("session_id")\<close>.
\<close>

record world =
  conversation_histories :: "string \<rightharpoonup> turn list"
  patient_logs :: "string \<rightharpoonup> (string \<rightharpoonup> log_item list)"
  alerts_store :: "string \<rightharpoonup> alert list"
  reminders_store :: "string \<rightharpoonup> reminder"
  scheduler_jobs :: "job list"
  token_supply :: "string stream"
  flask_session :: "string option option"


section \<open>Helper utilities\<close>

text \<open>The dictionary \<open>get_session_id\<close> stores for a new session.\<close>

definition empty_logs :: "string \<rightharpoonup> log_item list" where
  "empty_logs = [''pain'' \<mapsto> [], ''medication'' \<mapsto> [], ''mobility'' \<mapsto> [], ''mood'' \<mapsto> [],
                 ''symptoms'' \<mapsto> [], ''wound'' \<mapsto> [], ''alerts'' \<mapsto> [], ''reminders'' \<mapsto> []]"

text \<open>\<open>secrets.token_hex(8)\<close>: the next token of the supply.\<close>

definition token_hex :: "world \<Rightarrow> string \<times> world" where
  "token_hex w = (shd (token_supply w), w\<lparr>token_supply := stl (token_supply w)\<rparr>)"

text \<open>
  \<open>get_session_id\<close>.  Reading \<open>session\<close> outside a request raises (Flask's
  "working outside of request context"), before anything is changed.
\<close>

definition get_session_id :: "world \<Rightarrow> (exn + string) \<times> world" where
  "get_session_id w =
     (case flask_session w of
        None \<Rightarrow> (Inl RuntimeError, w)
      | Some c \<Rightarrow>
          (let (sid, w1) =
                 (if c = None \<or> c = Some []
                  then (let (tok, w0) = token_hex w in
                        (tok, w0\<lparr>flask_session := Some (Some tok),
                                 conversation_histories := (conversation_histories w0)(tok \<mapsto> []),
                                 patient_logs := (patient_logs w0)(tok \<mapsto> empty_logs),
                                 alerts_store := (alerts_store w0)(tok \<mapsto> [])\<rparr>))
                  else (case c of Some s \<Rightarrow> s | None \<Rightarrow> [], w));
               w2 = (if patient_logs w1 sid = None
                     then w1\<lparr>patient_logs := (patient_logs w1)(sid \<mapsto> empty_logs)\<rparr> else w1);
               w3 = (if conversation_histories w2 sid = None
                     then w2\<lparr>conversation_histories := (conversation_histories w2)(sid \<mapsto> [])\<rparr> else w2);
               w4 = (if alerts_store w3 sid = None
                     then w3\<lparr>alerts_store := (alerts_store w3)(sid \<mapsto> [])\<rparr> else w3)
           in (Inr sid, w4)))"

text \<open>\<open>_update_history\<close>\<close>

definition update_history :: "string \<Rightarrow> string \<Rightarrow> string \<Rightarrow> world \<Rightarrow> world" where
  "update_history session_id user_text bot_text w =
     (let history = (case conversation_histories w session_id of None \<Rightarrow> [] | Some h \<Rightarrow> h)
      in w\<lparr>conversation_histories := (conversation_histories w)(session_id \<mapsto>
              history @ [\<lparr>role = ''user'', parts = [user_text]\<rparr>, \<lparr>role = ''model'', parts = [bot_text]\<rparr>])\<rparr>)"

text \<open>
  \<open>log_patient_data\<close>; \<open>now\<close> is what \<open>ts_now()\<close> returns.  The result is the exception
  raised, if any, and the state at that point.
\<close>

definition log_patient_data ::
  "string \<Rightarrow> string \<Rightarrow> string \<Rightarrow> string \<Rightarrow> world \<Rightarrow> exn option \<times> world" where
  "log_patient_data session_id category val now w =
     (case (if patient_logs w session_id = None
            then (case get_session_id w of (Inl e, w') \<Rightarrow> (Some e, w') | (Inr _, w') \<Rightarrow> (None, w'))
            else (None, w)) of
        (Some e, w1) \<Rightarrow> (Some e, w1)
      | (None, w1) \<Rightarrow>
          (case patient_logs w1 session_id of
             None \<Rightarrow> (Some KeyError, w1)
           | Some logs \<Rightarrow>
               (let logs1 = (if logs category = None then logs(category \<mapsto> []) else logs);
                    items = (case logs1 category of None \<Rightarrow> [] | Some xs \<Rightarrow> xs)
                in (None, w1\<lparr>patient_logs := (patient_logs w1)(session_id \<mapsto>
                      logs1(category \<mapsto> items @ [LogEntry now val]))\<rparr>))))"

text \<open>Running one statement after another: an exception ends the sequence.\<close>

definition and_then ::
  "(world \<Rightarrow> exn option \<times> world) \<Rightarrow> (world \<Rightarrow> exn option \<times> world) \<Rightarrow> world \<Rightarrow> exn option \<times> world" where
  "and_then f g w = (case f w of (Some e, w') \<Rightarrow> (Some e, w') | (None, w') \<Rightarrow> g w')"

definition when_do :: "bool \<Rightarrow> (world \<Rightarrow> exn option \<times> world) \<Rightarrow> world \<Rightarrow> exn option \<times> world" where
  "when_do b f w = (if b then f w else (None, w))"

text \<open>\<open>r'pain\s*(?:is|=|:)?\s*(\d{1,2})'\<close>\<close>

definition pain_rx :: rx where
  "pain_rx = Seq [Lit ''pain'', Rep Space 0 None, Opt (Alt [Lit ''is'', Lit ''='', Lit '':'']),
                  Rep Space 0 None, Grp 1 (Rep Digit 1 (Some 2))]"

text \<open>\<open>r'(\d{2,6})\s*steps'\<close>\<close>

definition steps_rx :: rx where
  "steps_rx = Seq [Grp 1 (Rep Digit 2 (Some 6)), Rep Space 0 None, Lit ''steps'']"

text \<open>\<open>r'\b(took|taken|took my|took the|medicine|medication|tablet|pill)\b'\<close>\<close>

definition medication_rx :: rx where
  "medication_rx = Seq [WordB, Grp 1 (Alt [Lit ''took'', Lit ''taken'', Lit ''took my'', Lit ''took the'',
                      Lit ''medicine'', Lit ''medication'', Lit ''tablet'', Lit ''pill'']), WordB]"

text \<open>\<open>r'\b(mood|feeling|anxious|sad|depressed|happy|ok)\b'\<close>\<close>

definition mood_rx :: rx where
  "mood_rx = Seq [WordB, Grp 1 (Alt [Lit ''mood'', Lit ''feeling'', Lit ''anxious'', Lit ''sad'',
                Lit ''depressed'', Lit ''happy'', Lit ''ok'']), WordB]"

definition symptoms_kw :: "string list" where
  "symptoms_kw = [''fever'', ''dizzy'', ''dizziness'', ''nausea'', ''bleeding'', ''swelling'', ''pus'',
                  ''infection'', ''shortness of breath'', ''chest pain'']"

text \<open>
  \<open>detect_and_log_basic\<close>.  An f-string prints a group that took no part in the match as
  \<open>None\<close>.
\<close>

definition fmt_opt :: "string option \<Rightarrow> string" where
  "fmt_opt x = (case x of None \<Rightarrow> ''None'' | Some s \<Rightarrow> s)"

definition detect_and_log_basic :: "string \<Rightarrow> string \<Rightarrow> string \<Rightarrow> world \<Rightarrow> exn option \<times> world" where
  "detect_and_log_basic session_id txt now =
     (let t = lower txt in
      and_then (case re_search False pain_rx t of
                  None \<Rightarrow> (\<lambda>w. (None, w))
                | Some m \<Rightarrow> log_patient_data session_id ''pain'' (fmt_opt (group m 1) @ ''/10'') now)
     (and_then (case re_search False steps_rx t of
                  None \<Rightarrow> (\<lambda>w. (None, w))
                | Some s \<Rightarrow> log_patient_data session_id ''mobility'' (fmt_opt (group s 1) @ '' steps'') now)
     (and_then (when_do (re_search False medication_rx t \<noteq> None)
                  (log_patient_data session_id ''medication'' txt now))
     (and_then (when_do (re_search False mood_rx t \<noteq> None)
                  (log_patient_data session_id ''mood'' txt now))
     (and_then (when_do (find (\<lambda>kw. contains kw t) symptoms_kw \<noteq> None)
                  (log_patient_data session_id ''symptoms'' txt now))
               (when_do (contains ''wound'' t \<or> contains ''photo'' t \<or> contains ''upload'' t)
                  (log_patient_data session_id ''wound'' txt now)))))))"


section \<open>Triage\<close>

definition high_kw :: "string list" where
  "high_kw = [''chest pain'', ''severe bleeding'', ''difficulty breathing'', ''unconscious'', ''passing out'']"

definition medium_kw :: "string list" where
  "medium_kw = [''fever'', ''dizzy'', ''dizziness'', ''severe pain'', ''swelling'', ''pus'', ''infection'']"

text \<open>
  The numeric pain check that ends \<open>triage_simple\<close>, on the lower-cased text.  \<open>int\<close> of a
  group that took no part in the match would raise.
\<close>

definition numeric_pain_check :: "string \<Rightarrow> exn + (string option \<times> string option)" where
  "numeric_pain_check t =
     (case re_search False pain_rx t of
        None \<Rightarrow> Inr (None, None)
      | Some m \<Rightarrow>
          (case group m 1 of
             None \<Rightarrow> Inl TypeError
           | Some d \<Rightarrow>
               (let pain = int_of_digits d in
                if 8 \<le> pain
                then Inr (Some ''medium'', Some (''High pain reported ('' @ str_nat pain @ ''/10)''))
                else Inr (None, None))))"

text \<open>\<open>triage_simple\<close>: the pair (severity, reason), \<open>(None, None)\<close> when no rule fires.\<close>

definition triage_simple :: "string \<Rightarrow> exn + (string option \<times> string option)" where
  "triage_simple txt =
     (let t = lower txt in
      case find (\<lambda>kw. contains kw t) high_kw of
        Some kw \<Rightarrow> Inr (Some ''high'', Some (''Immediate attention required: '' @ kw))
      | None \<Rightarrow>
          (case find (\<lambda>kw. contains kw t) medium_kw of
             Some kw \<Rightarrow> Inr (Some ''medium'', Some (''Possible complication: '' @ kw))
           | None \<Rightarrow> numeric_pain_check t))"


section \<open>Delivery of a reminder\<close>

definition bell :: string where
  "bell = [CHR 0xF0, CHR 0x9F, CHR 0x94, CHR 0x94]"

text \<open>
  \<open>schedule_reminder_job\<close>, the function the scheduler calls at the run date.  Whatever
  is raised inside is caught and printed, so the function always returns; what was
  written before the exception stays.
\<close>

definition schedule_reminder_job ::
  "string \<Rightarrow> string \<Rightarrow> string \<Rightarrow> string \<Rightarrow> string \<Rightarrow> world \<Rightarrow> world" where
  "schedule_reminder_job reminder_id session_id when_iso txt now w =
     (let delivered_text = bell @ '' Reminder: '' @ txt @ '' (scheduled at '' @ when_iso @ '')'';
          w1 = update_history session_id ''(system reminder triggered)'' delivered_text w
      in case log_patient_data session_id ''medication'' (''Reminder triggered: '' @ txt) now w1 of
           (Some e, w2) \<Rightarrow> w2
         | (None, w2) \<Rightarrow>
             (case reminders_store w2 reminder_id of
                None \<Rightarrow> w2
              | Some r \<Rightarrow>
                  (let w3 = w2\<lparr>reminders_store := (reminders_store w2)(reminder_id \<mapsto> r\<lparr>rem_sent := True\<rparr>)\<rparr>
                   in case patient_logs w3 session_id of
                        None \<Rightarrow> w3
                      | Some logs \<Rightarrow>
                          (case logs ''reminders'' of
                             None \<Rightarrow> w3
                           | Some xs \<Rightarrow>
                               w3\<lparr>patient_logs := (patient_logs w3)(session_id \<mapsto>
                                    logs(''reminders'' \<mapsto>
                                      xs @ [ReminderEntry reminder_id when_iso txt True]))\<rparr>))))"


section \<open>Report generator\<close>

definition pushpin :: string where "pushpin = [CHR 0xF0, CHR 0x9F, CHR 0x93, CHR 0x8C]"
definition pill_sign :: string where "pill_sign = [CHR 0xF0, CHR 0x9F, CHR 0x92, CHR 0x8A]"
definition walker :: string where "walker = [CHR 0xF0, CHR 0x9F, CHR 0x9A, CHR 0xB6]"
definition smiley :: string where "smiley = [CHR 0xF0, CHR 0x9F, CHR 0x99, CHR 0x82]"
definition warning_sign :: string where "warning_sign = [CHR 0xE2, CHR 0x9A, CHR 0xA0, CHR 0xEF, CHR 0xB8, CHR 0x8F]"
definition stethoscope :: string where "stethoscope = [CHR 0xF0, CHR 0x9F, CHR 0xA9, CHR 0xBA]"
definition siren :: string where "siren = [CHR 0xF0, CHR 0x9F, CHR 0x9A, CHR 0xA8]"
definition magnifier :: string where "magnifier = [CHR 0xF0, CHR 0x9F, CHR 0x94, CHR 0x8D]"
definition em_dash :: string where "em_dash = [CHR 0xE2, CHR 0x80, CHR 0x94]"
definition bullet :: string where "bullet = [CHR 0xE2, CHR 0x80, CHR 0xA2]"
definition check_mark :: string where "check_mark = [CHR 0xE2, CHR 0x9C, CHR 0x85]"

text \<open>\<open>item["value"]\<close>: a reminder dictionary has no such key.\<close>

definition value_of :: "log_item \<Rightarrow> exn + string" where
  "value_of item = (case item of LogEntry t v \<Rightarrow> Inr v | ReminderEntry i wh b s \<Rightarrow> Inl KeyError)"

fun values_of :: "log_item list \<Rightarrow> exn + string list" where
  "values_of [] = Inr []"
| "values_of (x # xs) =
     (case value_of x of
        Inl e \<Rightarrow> Inl e
      | Inr v \<Rightarrow> (case values_of xs of Inl e \<Rightarrow> Inl e | Inr vs \<Rightarrow> Inr (v # vs)))"

text \<open>\<open>r'(\d+)\s*steps'\<close>\<close>

definition report_steps_rx :: rx where
  "report_steps_rx = Seq [Grp 1 (Rep Digit 1 None), Rep Space 0 None, Lit ''steps'']"

text \<open>The loop that adds up the steps of the mobility entries.\<close>

fun total_steps :: "log_item list \<Rightarrow> nat \<Rightarrow> exn + nat" where
  "total_steps [] tot = Inr tot"
| "total_steps (m # ms) tot =
     (case value_of m of
        Inl e \<Rightarrow> Inl e
      | Inr v \<Rightarrow>
          (case re_search False report_steps_rx v of
             None \<Rightarrow> total_steps ms tot
           | Some mm \<Rightarrow>
               (case group mm 1 of
                  None \<Rightarrow> Inl TypeError
                | Some d \<Rightarrow> total_steps ms (tot + int_of_digits d))))"

text \<open>\<open>xs[-n:]\<close>\<close>

definition last_n :: "nat \<Rightarrow> 'a list \<Rightarrow> 'a list" where
  "last_n n xs = drop (length xs - n) xs"

definition bind_exn :: "exn + 'a \<Rightarrow> ('a \<Rightarrow> exn + 'b) \<Rightarrow> exn + 'b" where
  "bind_exn x f = (case x of Inl e \<Rightarrow> Inl e | Inr v \<Rightarrow> f v)"

definition pain_line :: "log_item list \<Rightarrow> exn + string" where
  "pain_line pains =
     (if pains \<noteq> []
      then bind_exn (value_of (last pains)) (\<lambda>v.
             Inr (pushpin @ '' Pain logs: '' @ str_nat (length pains) @ '' entries '' @ em_dash @
                  '' last: '' @ v))
      else Inr (pushpin @ '' Pain logs: no entries yet.''))"

definition mobility_line :: "log_item list \<Rightarrow> exn + string" where
  "mobility_line mobility =
     (if mobility \<noteq> []
      then bind_exn (total_steps mobility 0) (\<lambda>tot.
             if 0 < tot
             then bind_exn (value_of (last mobility)) (\<lambda>v.
                    Inr (walker @ '' Mobility: total steps recorded '' @ str_nat tot @ ''. Last: '' @ v))
             else Inr (walker @ '' Mobility logs: '' @ str_nat (length mobility) @ '' entries.''))
      else Inr (walker @ '' Mobility: no logs yet.''))"

definition mood_line :: "log_item list \<Rightarrow> exn + string" where
  "mood_line mood =
     (if mood \<noteq> []
      then bind_exn (values_of (last_n 7 mood)) (\<lambda>sample.
             Inr (smiley @ '' Recent mood samples: '' @ join '', '' (last_n 3 sample)))
      else Inr (smiley @ '' Mood: no entries yet.''))"

definition alerts_line :: "alert list \<Rightarrow> string" where
  "alerts_line alerts =
     (if alerts \<noteq> []
      then siren @ '' Active alerts: '' @ str_nat (length alerts) @ '' '' @ em_dash @ '' last: '' @
           fmt_opt (reason (last alerts))
      else magnifier @ '' No active alerts.'')"

text \<open>\<open>generate_report_text\<close>; the lines are computed in the order of the source.\<close>

definition generate_report_text :: "string \<Rightarrow> world \<Rightarrow> exn + string" where
  "generate_report_text session_id w =
     (let logs = (case patient_logs w session_id of None \<Rightarrow> Map.empty | Some l \<Rightarrow> l);
          get = (\<lambda>k. case logs k of None \<Rightarrow> [] | Some xs \<Rightarrow> xs);
          alerts = (case alerts_store w session_id of None \<Rightarrow> [] | Some a \<Rightarrow> a)
      in bind_exn (pain_line (get ''pain'')) (\<lambda>l1.
         let l2 = pill_sign @ '' Medication logs: '' @ str_nat (length (get ''medication'')) @ '' entries.'' in
         bind_exn (mobility_line (get ''mobility'')) (\<lambda>l3.
         bind_exn (mood_line (get ''mood'')) (\<lambda>l4.
         let l5 = warning_sign @ '' Symptom reports: '' @ str_nat (length (get ''symptoms''));
             l6 = stethoscope @ '' Wound/photo uploads: '' @ str_nat (length (get ''wound''));
             l7 = alerts_line alerts
         in Inr (join [CHR 0x0A] [l1, l2, l3, l4, l5, l6, l7])))))"


section \<open>The chat route\<close>

text \<open>
  What the route reads of the request: \<open>json_body\<close> is \<open>None\<close> when \<open>request.json\<close> gives
  no dictionary (the access then raises), \<open>Some None\<close> when the dictionary has no
  \<open>"message"\<close>, and \<open>Some (Some s)\<close> when it has the text \<open>s\<close>; \<open>form_message\<close> is
  \<open>request.form.get("message")\<close>.  The message, when present, is taken to be a string.
\<close>

record request =
  json_body :: "string option option"
  form_message :: "string option"

text \<open>What \<open>get_current_time_info()\<close> returns, read from the clock by the caller.\<close>

record time_info =
  local_time :: string
  local_date :: string
  utc_time :: string

text \<open>A response: the HTTP status and the \<open>"response"\<close> text of the JSON body.\<close>

type_synonym response = "nat \<times> string"

text \<open>The \<open>except Exception\<close> clause of \<open>chat\<close>.\<close>

definition trouble :: response where
  "trouble = (200, warning_sign @ '' Sorry '' @ em_dash @ '' I had trouble. Please try again.'')"

text \<open>\<open>r'\b(what time|current time|time now|what\'s the time)\b'\<close>\<close>

definition time_rx :: rx where
  "time_rx = Seq [WordB, Grp 1 (Alt [Lit ''what time'', Lit ''current time'', Lit ''time now'',
                Lit (''what'' @ [CHR 0x27] @ ''s the time'')]), WordB]"

text \<open>\<open>r'remind me (?:at|on|in)?\s*(.*) to (.+)'\<close>\<close>

definition remind_rx :: rx where
  "remind_rx = Seq [Lit ''remind me '', Opt (Alt [Lit ''at'', Lit ''on'', Lit ''in'']), Rep Space 0 None,
                    Grp 1 (Rep Dot 0 None), Lit '' to '', Grp 2 (Rep Dot 1 None)]"

text \<open>\<open>r'(\d{1,2})(?::(\d{2}))?\s*(am|pm)?'\<close>\<close>

definition hm_rx :: rx where
  "hm_rx = Seq [Grp 1 (Rep Digit 1 (Some 2)), Opt (Seq [Lit '':'', Grp 2 (Rep Digit 2 (Some 2))]),
                Rep Space 0 None, Opt (Grp 3 (Alt [Lit ''am'', Lit ''pm'']))]"

text \<open>\<open>r'\b(upload (a )?wound|i have uploaded|i uploaded|wound photo)\b'\<close>\<close>

definition wound_rx :: rx where
  "wound_rx = Seq [WordB, Grp 1 (Alt [Seq [Lit ''upload '', Opt (Grp 2 (Lit ''a '')), Lit ''wound''],
                 Lit ''i have uploaded'', Lit ''i uploaded'', Lit ''wound photo'']), WordB]"

text \<open>\<open>r'\b(report|weekly report|progress report|show my progress)\b'\<close>\<close>

definition report_rx :: rx where
  "report_rx = Seq [WordB, Grp 1 (Alt [Lit ''report'', Lit ''weekly report'', Lit ''progress report'',
                  Lit ''show my progress'']), WordB]"

text \<open>
  \<open>now.replace(hour=h, minute=m, second=0, microsecond=0)\<close>, which raises \<open>ValueError\<close>
  for an hour above 23 or a minute above 59.
\<close>

definition replace_hm :: "datetime \<Rightarrow> nat \<Rightarrow> nat \<Rightarrow> exn + datetime" where
  "replace_hm d h m =
     (if 23 < h \<or> 59 < m then Inl ValueError
      else Inr (d\<lparr>hour := h, minute := m, second := 0, microsecond := 0\<rparr>))"

text \<open>
  The part of \<open>chat\<close> that computes \<open>when_dt\<close> from \<open>when_part\<close> and
  \<open>now = datetime.utcnow()\<close>.
\<close>

definition chat_when_dt :: "datetime \<Rightarrow> string \<Rightarrow> exn + datetime" where
  "chat_when_dt now when_part =
     (case re_search True hm_rx when_part of
        Some hm \<Rightarrow>
          (case group hm 1 of
             None \<Rightarrow> Inl TypeError
           | Some g1 \<Rightarrow>
               (let hour0 = int_of_digits g1;
                    minute0 = (case group hm 2 of None \<Rightarrow> 0
                               | Some g2 \<Rightarrow> if g2 = [] then 0 else int_of_digits g2);
                    ampm = lower (case group hm 3 of None \<Rightarrow> [] | Some a \<Rightarrow> a);
                    hour1 = (if ampm = ''pm'' \<and> hour0 < 12 then hour0 + 12 else hour0);
                    hour2 = (if ampm = ''am'' \<and> hour1 = 12 then 0 else hour1)
                in bind_exn (replace_hm now hour2 minute0) (\<lambda>when_dt.
                     Inr (if dt_le when_dt now then add_day when_dt else when_dt))))
      | None \<Rightarrow> Inr (add_minute now))"

text \<open>
  Step 4 of \<open>chat\<close> once \<open>rem_match\<close> is found.  The run date of the job is
  \<open>datetime.fromisoformat(when_iso)\<close>, which is \<open>when_dt\<close> again.
\<close>

definition chat_reminder ::
  "string \<Rightarrow> string \<Rightarrow> datetime \<Rightarrow> (nat \<times> string) list \<Rightarrow> world \<Rightarrow> response \<times> world" where
  "chat_reminder session_id user_input now rem_match w =
     (case group rem_match 1 of
        None \<Rightarrow> (trouble, w)
      | Some g1 \<Rightarrow>
     (case group rem_match 2 of
        None \<Rightarrow> (trouble, w)
      | Some g2 \<Rightarrow>
     (let when_part = strip g1; text_part = strip g2 in
      case chat_when_dt now when_part of
        Inl e \<Rightarrow> (trouble, w)
      | Inr when_dt \<Rightarrow>
          (let when_iso = isoformat when_dt;
               (reminder_id, w1) = token_hex w;
               w2 = w1\<lparr>reminders_store := (reminders_store w1)(reminder_id \<mapsto>
                       \<lparr>rem_session_id = session_id, rem_when = when_iso, rem_text = text_part,
                        rem_sent = False\<rparr>)\<rparr>;
               w3 = w2\<lparr>scheduler_jobs := scheduler_jobs w2 @
                       [\<lparr>run_date = when_dt, job_reminder_id = reminder_id,
                         job_session_id = session_id, job_when_iso = when_iso, job_text = text_part\<rparr>]\<rparr>
           in case patient_logs w3 session_id of
                None \<Rightarrow> (trouble, w3)
              | Some logs \<Rightarrow>
                  (case logs ''reminders'' of
                     None \<Rightarrow> (trouble, w3)
                   | Some xs \<Rightarrow>
                       (let w4 = w3\<lparr>patient_logs := (patient_logs w3)(session_id \<mapsto>
                                   logs(''reminders'' \<mapsto>
                                     xs @ [ReminderEntry reminder_id when_iso text_part False]))\<rparr>;
                            bot_text = check_mark @ '' Reminder scheduled at '' @
                                       strftime_ymd_hm when_dt @ '' to: '' @ text_part
                        in ((200, bot_text), update_history session_id user_input bot_text w4)))))))"

text \<open>
  Steps 3 to 7 of \<open>chat\<close>.  \<open>reply\<close> stands for step 7, the call of the language model and
  the clean-up of its answer: the text to send back, or the exception raised; that step
  reads the state and does not write it.
\<close>

definition chat_steps ::
  "string \<Rightarrow> string \<Rightarrow> datetime \<Rightarrow> time_info \<Rightarrow> exn + string \<Rightarrow> world \<Rightarrow> response \<times> world" where
  "chat_steps session_id user_input now ti reply w =
     (if re_search True time_rx user_input \<noteq> None
      then (let bot_text = ''Current time information:'' @ [CHR 0x0A, CHR 0x0A] @
                   bullet @ '' Local time: '' @ local_time ti @ [CHR 0x0A] @
                   bullet @ '' Date: '' @ local_date ti @ [CHR 0x0A] @
                   bullet @ '' UTC time: '' @ utc_time ti
            in ((200, bot_text), update_history session_id user_input bot_text w))
      else case re_search True remind_rx user_input of
        Some rem_match \<Rightarrow> chat_reminder session_id user_input now rem_match w
      | None \<Rightarrow>
     (if re_search True wound_rx user_input \<noteq> None
      then (let bot_text = ''Thanks '' @ em_dash @ '' when you upload the wound photo using the '' @
                   [CHR 0x27] @ ''Upload Photo'' @ [CHR 0x27] @
                   '' button, I'' @ [CHR 0x27] @
                   ''ll log it and remind your doctor if anything looks concerning.''
            in case log_patient_data session_id ''wound'' user_input (isoformat now) w of
                 (Some e, w1) \<Rightarrow> (trouble, w1)
               | (None, w1) \<Rightarrow> ((200, bot_text), update_history session_id user_input bot_text w1))
      else if re_search True report_rx user_input \<noteq> None
      then (case generate_report_text session_id w of
              Inl e \<Rightarrow> (trouble, w)
            | Inr report_text \<Rightarrow>
                ((200, report_text), update_history session_id user_input report_text w))
      else (case reply of
              Inl e \<Rightarrow> (trouble, w)
            | Inr response_text \<Rightarrow>
                ((200, response_text), update_history session_id user_input response_text w))))"

text \<open>Python's truth value of the severity: \<open>None\<close> and the empty string are false.\<close>

definition truthy :: "string option \<Rightarrow> bool" where
  "truthy x = (case x of None \<Rightarrow> False | Some s \<Rightarrow> s \<noteq> [])"

text \<open>
  \<open>chat\<close>, in a request whose Flask session is \<open>flask_session w\<close>.  \<open>now\<close> is the UTC
  clock; one reading stands for all the readings of one request.
\<close>

definition chat :: "request \<Rightarrow> datetime \<Rightarrow> time_info \<Rightarrow> exn + string \<Rightarrow> world \<Rightarrow> response \<times> world" where
  "chat req now ti reply w =
     (case get_session_id w of
        (Inl e, w1) \<Rightarrow> (trouble, w1)
      | (Inr session_id, w1) \<Rightarrow>
     (case json_body req of
        None \<Rightarrow> (trouble, w1)
      | Some jm \<Rightarrow>
     (let a = (case jm of None \<Rightarrow> [] | Some s \<Rightarrow> s);
          user_input = (if a \<noteq> [] then a else (case form_message req of None \<Rightarrow> [] | Some s \<Rightarrow> s))
      in if user_input = [] then ((400, ''Please write a message.''), w1)
         else
     (case detect_and_log_basic session_id user_input (isoformat now) w1 of
        (Some e, w2) \<Rightarrow> (trouble, w2)
      | (None, w2) \<Rightarrow>
     (case triage_simple user_input of
        Inl e \<Rightarrow> (trouble, w2)
      | Inr (sev, rsn) \<Rightarrow>
          if truthy sev
          then (case alerts_store w2 session_id of
                  None \<Rightarrow> (trouble, w2)
                | Some al \<Rightarrow>
                    (let w3 = w2\<lparr>alerts_store := (alerts_store w2)(session_id \<mapsto>
                                al @ [\<lparr>alert_time = isoformat now, severity = sev, reason = rsn\<rparr>])\<rparr>
                     in if sev = Some ''high''
                        then (let bot_text = warning_sign @ '' This sounds serious: '' @ fmt_opt rsn @
                                    ''. Please call emergency services or contact your doctor immediately.''
                              in ((200, bot_text), update_history session_id user_input bot_text w3))
                        else if sev = Some ''medium''
                        then (let bot_text = ''I noticed: '' @ fmt_opt rsn @
                                    ''. Please consider contacting your doctor '' @ em_dash @
                                    '' I will log this and notify them if needed.''
                              in ((200, bot_text), update_history session_id user_input bot_text w3))
                        else chat_steps session_id user_input now ti reply w3))
          else chat_steps session_id user_input now ti reply w2)))))"


section \<open>Reading the state\<close>

text \<open>The entries logged for a session under a category, none when either is unknown.\<close>

definition entries :: "world \<Rightarrow> string \<Rightarrow> string \<Rightarrow> log_item list" where
  "entries w sid cat =
     (case patient_logs w sid of None \<Rightarrow> []
      | Some logs \<Rightarrow> (case logs cat of None \<Rightarrow> [] | Some xs \<Rightarrow> xs))"

text \<open>What \<open>log_patient_data\<close> does to the state when the session has its logs.\<close>

definition add_entry :: "string \<Rightarrow> string \<Rightarrow> log_item \<Rightarrow> world \<Rightarrow> world" where
  "add_entry sid cat item w =
     (case patient_logs w sid of None \<Rightarrow> w
      | Some logs \<Rightarrow> w\<lparr>patient_logs := (patient_logs w)(sid \<mapsto>
                        logs(cat \<mapsto> (case logs cat of None \<Rightarrow> [] | Some xs \<Rightarrow> xs) @ [item]))\<rparr>)"

text \<open>
  The (category, value) pairs that \<open>detect_and_log_basic\<close> hands to \<open>log_patient_data\<close>
  for a text, in the order of the calls.
\<close>

definition extracted :: "string \<Rightarrow> (string \<times> string) list" where
  "extracted txt =
     (let t = lower txt in
      (case re_search False pain_rx t of None \<Rightarrow> []
       | Some m \<Rightarrow> [(''pain'', fmt_opt (group m 1) @ ''/10'')]) @
      (case re_search False steps_rx t of None \<Rightarrow> []
       | Some s \<Rightarrow> [(''mobility'', fmt_opt (group s 1) @ '' steps'')]) @
      (if re_search False medication_rx t \<noteq> None then [(''medication'', txt)] else []) @
      (if re_search False mood_rx t \<noteq> None then [(''mood'', txt)] else []) @
      (if find (\<lambda>kw. contains kw t) symptoms_kw \<noteq> None then [(''symptoms'', txt)] else []) @
      (if contains ''wound'' t \<or> contains ''photo'' t \<or> contains ''upload'' t
       then [(''wound'', txt)] else []))"

fun log_all :: "string \<Rightarrow> string \<Rightarrow> (string \<times> string) list \<Rightarrow> world \<Rightarrow> world" where
  "log_all sid now [] w = w"
| "log_all sid now (cv # cvs) w = log_all sid now cvs (add_entry sid (fst cv) (LogEntry now (snd cv)) w)"

text \<open>\<open>session_id in patient_logs\<close>\<close>

definition in_logs :: "world \<Rightarrow> string \<Rightarrow> bool" where
  "in_logs w sid = (patient_logs w sid \<noteq> None)"

text \<open>
  A state with one session, \<open>s1\<close>, as \<open>get_session_id\<close> creates it, during a request of
  that session.
\<close>

definition demo_world :: world where
  "demo_world = \<lparr>conversation_histories = [''s1'' \<mapsto> []], patient_logs = [''s1'' \<mapsto> empty_logs],
     alerts_store = [''s1'' \<mapsto> []], reminders_store = Map.empty, scheduler_jobs = [],
     token_supply = sconst ''0f'', flask_session = Some (Some ''s1'')\<rparr>"

text \<open>The report of a session that has no entries and no alerts.\<close>

definition empty_report :: string where
  "empty_report = join [CHR 0x0A]
     [pushpin @ '' Pain logs: no entries yet.'',
      pill_sign @ '' Medication logs: 0 entries.'',
      walker @ '' Mobility: no logs yet.'',
      smiley @ '' Mood: no entries yet.'',
      warning_sign @ '' Symptom reports: 0'',
      stethoscope @ '' Wound/photo uploads: 0'',
      magnifier @ '' No active alerts.'']"

text \<open>The history of a session, empty when the session is unknown.\<close>

definition history :: "world \<Rightarrow> string \<Rightarrow> turn list" where
  "history w sid = (case conversation_histories w sid of None \<Rightarrow> [] | Some h \<Rightarrow> h)"

text \<open>The text \<open>schedule_reminder_job\<close> puts into the history.\<close>

definition delivered_text :: "string \<Rightarrow> string \<Rightarrow> string" where
  "delivered_text txt when_iso = bell @ '' Reminder: '' @ txt @ '' (scheduled at '' @ when_iso @ '')''"

text \<open>
  A state on the scheduler's thread in which the reminder \<open>r1\<close> of session \<open>s1\<close> has
  been scheduled and delivered once.
\<close>

definition delivered_world :: world where
  "delivered_world = demo_world\<lparr>
     patient_logs := [''s1'' \<mapsto> empty_logs(''reminders'' \<mapsto>
        [ReminderEntry ''r1'' ''2024-03-10T17:00:00'' ''take antibiotic'' False,
         ReminderEntry ''r1'' ''2024-03-10T17:00:00'' ''take antibiotic'' True])],
     reminders_store := [''r1'' \<mapsto> \<lparr>rem_session_id = ''s1'', rem_when = ''2024-03-10T17:00:00'',
        rem_text = ''take antibiotic'', rem_sent = True\<rparr>],
     flask_session := None\<rparr>"

text \<open>A clock reading at 3 PM, and 5 PM of the same day.\<close>

definition demo_now :: datetime where
  "demo_now = \<lparr>year = 2024, month = 3, day = 10, hour = 15, minute = 0, second = 12, microsecond = 345\<rparr>"

definition demo_5pm :: datetime where
  "demo_5pm = \<lparr>year = 2024, month = 3, day = 10, hour = 17, minute = 0, second = 0, microsecond = 0\<rparr>"

text \<open>
  The message text \<open>chat\<close> reads from a request: \<open>user_input\<close>.  It is empty when the
  JSON object and the form hold no message, and also when the request has no JSON object
  (reading \<open>request.json\<close> then raises before any message is read).
\<close>

definition message_of :: "request \<Rightarrow> string" where
  "message_of req =
     (case json_body req of
        None \<Rightarrow> []
      | Some jm \<Rightarrow>
          (let a = (case jm of None \<Rightarrow> [] | Some s \<Rightarrow> s)
           in if a \<noteq> [] then a else (case form_message req of None \<Rightarrow> [] | Some s \<Rightarrow> s)))"


text \<open>
  A reading of the local clock.
\<close>

definition demo_ti :: time_info where
  "demo_ti = \<lparr>local_time = ''03:00 PM'', local_date = ''Sunday, March 10, 2024'',
               utc_time = ''03:00 PM UTC''\<rparr>"

text \<open>
  A clock reading at 6 PM of the same day, and 5 PM of the next day.
\<close>

definition demo_6pm :: datetime where
  "demo_6pm = \<lparr>year = 2024, month = 3, day = 10, hour = 18, minute = 0, second = 12, microsecond = 345\<rparr>"

definition next_5pm :: datetime where
  "next_5pm = \<lparr>year = 2024, month = 3, day = 11, hour = 17, minute = 0, second = 0, microsecond = 0\<rparr>"

text \<open>
  The hour and the minute \<open>chat\<close> computes from the groups of the time token: the
  digits of the hour with the am/pm mark, and the optional digits of the minute.
\<close>

definition token_hour :: "string \<Rightarrow> string \<Rightarrow> nat" where
  "token_hour g1 ampm =
     (let hour0 = int_of_digits g1;
          hour1 = (if ampm = ''pm'' \<and> hour0 < 12 then hour0 + 12 else hour0)
      in if ampm = ''am'' \<and> hour1 = 12 then 0 else hour1)"

definition token_minute :: "string option \<Rightarrow> nat" where
  "token_minute g2 = (case g2 of None \<Rightarrow> 0 | Some d \<Rightarrow> if d = [] then 0 else int_of_digits d)"


section \<open>Facts about the text primitives\<close>

lemma contains_iff: "contains kw t \<longleftrightarrow> (\<exists>p s. t = p @ kw @ s)"
proof (induction t)
  case Nil
  then show ?case by auto
next
  case (Cons c cs)
  show ?case
  proof
    assume "contains kw (c # cs)"
    then consider "prefix kw (c # cs)" | "contains kw cs" by auto
    then show "\<exists>p s. c # cs = p @ kw @ s"
    proof cases
      case 1
      then obtain s where "c # cs = kw @ s" by (auto simp: prefix_def)
      then have "c # cs = [] @ kw @ s" by simp
      then show ?thesis by blast
    next
      case 2
      with Cons.IH obtain p s where "cs = p @ kw @ s" by blast
      then have "c # cs = (c # p) @ kw @ s" by simp
      then show ?thesis by blast
    qed
  next
    assume "\<exists>p s. c # cs = p @ kw @ s"
    then obtain p s where ps: "c # cs = p @ kw @ s" by blast
    show "contains kw (c # cs)"
    proof (cases p)
      case Nil
      with ps have "prefix kw (c # cs)" by (simp add: prefix_def)
      then show ?thesis by simp
    next
      case (Cons a p')
      with ps have "cs = p' @ kw @ s" by simp
      with Cons.IH have "contains kw cs" by blast
      then show ?thesis by simp
    qed
  qed
qed

lemma lower_append: "lower (a @ b) = lower a @ lower b"
  by (simp add: lower_def)

lemma contains_lower: "contains kw t \<Longrightarrow> contains (lower kw) (lower t)"
  unfolding contains_iff by (metis lower_append)

lemma lower_chest_pain: "lower ''chest pain'' = ''chest pain''"
  by (simp add: lower_def lower_char_def)


section \<open>Triage: the order of the rules\<close>

text \<open>
  Claim C1.  \<open>triage_simple\<close> evaluates its rules in strict priority order on every text.
  The high-severity keywords are checked first, in list order: the first of them that
  occurs in the lower-cased text gives the verdict \<open>high\<close> with the reason
  "Immediate attention required: <keyword>".  When none of them occurs, the first
  medium-severity keyword that occurs gives \<open>medium\<close> with "Possible complication:
  <keyword>".  The numeric pain check decides only when no keyword of either list occurs.
  Hence a text containing "chest pain" yields \<open>high\<close> with the reason
  "Immediate attention required: chest pain" whatever else it contains, and whenever a
  high-severity keyword occurs the verdict is \<open>high\<close>, also when medium-severity
  keywords occur too.
\<close>

theorem classify_priority_order:
  "(\<forall>i<length high_kw.
      contains (high_kw ! i) (lower txt) \<and> (\<forall>j<i. \<not> contains (high_kw ! j) (lower txt)) \<longrightarrow>
      triage_simple txt = Inr (Some ''high'', Some (''Immediate attention required: '' @ high_kw ! i)))
   \<and> ((\<forall>kw\<in>set high_kw. \<not> contains kw (lower txt)) \<longrightarrow>
       (\<forall>i<length medium_kw.
          contains (medium_kw ! i) (lower txt) \<and> (\<forall>j<i. \<not> contains (medium_kw ! j) (lower txt)) \<longrightarrow>
          triage_simple txt = Inr (Some ''medium'', Some (''Possible complication: '' @ medium_kw ! i))))
   \<and> ((\<forall>kw\<in>set high_kw. \<not> contains kw (lower txt)) \<and>
       (\<forall>kw\<in>set medium_kw. \<not> contains kw (lower txt)) \<longrightarrow>
       triage_simple txt = numeric_pain_check (lower txt))
   \<and> (contains ''chest pain'' txt \<longrightarrow>
       triage_simple txt = Inr (Some ''high'', Some ''Immediate attention required: chest pain''))
   \<and> ((\<exists>kw\<in>set high_kw. contains kw (lower txt)) \<longrightarrow>
       (\<exists>kw\<in>set high_kw. triage_simple txt =
           Inr (Some ''high'', Some (''Immediate attention required: '' @ kw))))"
proof (intro conjI allI impI)
  fix i assume "i < length high_kw"
    and "contains (high_kw ! i) (lower txt) \<and> (\<forall>j<i. \<not> contains (high_kw ! j) (lower txt))"
  then have "find (\<lambda>kw. contains kw (lower txt)) high_kw = Some (high_kw ! i)"
    unfolding find_Some_iff by blast
  then show "triage_simple txt = Inr (Some ''high'', Some (''Immediate attention required: '' @ high_kw ! i))"
    by (simp add: triage_simple_def)
next
  fix i assume nh: "\<forall>kw\<in>set high_kw. \<not> contains kw (lower txt)" and "i < length medium_kw"
    and "contains (medium_kw ! i) (lower txt) \<and> (\<forall>j<i. \<not> contains (medium_kw ! j) (lower txt))"
  then have "find (\<lambda>kw. contains kw (lower txt)) medium_kw = Some (medium_kw ! i)"
    unfolding find_Some_iff by blast
  moreover from nh have "find (\<lambda>kw. contains kw (lower txt)) high_kw = None"
    unfolding find_None_iff by blast
  ultimately show "triage_simple txt = Inr (Some ''medium'', Some (''Possible complication: '' @ medium_kw ! i))"
    by (simp add: triage_simple_def)
next
  assume "(\<forall>kw\<in>set high_kw. \<not> contains kw (lower txt)) \<and> (\<forall>kw\<in>set medium_kw. \<not> contains kw (lower txt))"
  then have "find (\<lambda>kw. contains kw (lower txt)) high_kw = None"
    and "find (\<lambda>kw. contains kw (lower txt)) medium_kw = None"
    unfolding find_None_iff by blast+
  then show "triage_simple txt = numeric_pain_check (lower txt)"
    by (simp add: triage_simple_def)
next
  assume "contains ''chest pain'' txt"
  then have "contains ''chest pain'' (lower txt)"
    using contains_lower lower_chest_pain by fastforce
  then have "find (\<lambda>kw. contains kw (lower txt)) high_kw = Some ''chest pain''"
    by (simp add: high_kw_def)
  then show "triage_simple txt = Inr (Some ''high'', Some ''Immediate attention required: chest pain'')"
    by (simp add: triage_simple_def)
next
  assume "\<exists>kw\<in>set high_kw. contains kw (lower txt)"
  then have "find (\<lambda>kw. contains kw (lower txt)) high_kw \<noteq> None"
    unfolding find_None_iff by blast
  then obtain kw where f: "find (\<lambda>kw. contains kw (lower txt)) high_kw = Some kw" by blast
  then have "kw \<in> set high_kw" by (auto simp: find_Some_iff)
  moreover from f have "triage_simple txt = Inr (Some ''high'', Some (''Immediate attention required: '' @ kw))"
    by (simp add: triage_simple_def)
  ultimately show "\<exists>kw\<in>set high_kw. triage_simple txt =
           Inr (Some ''high'', Some (''Immediate attention required: '' @ kw))" by blast
qed

text \<open>
  The theorem at the text "I have fever and chest pain", in which a keyword of each list
  occurs.
\<close>

theorem classify_priority_order_witness:
  "contains ''chest pain'' ''I have fever and chest pain'' \<and>
   contains ''fever'' (lower ''I have fever and chest pain'') \<and>
   triage_simple ''I have fever and chest pain'' =
     Inr (Some ''high'', Some ''Immediate attention required: chest pain'')"
proof -
  have h: "contains ''chest pain'' ''I have fever and chest pain''" by simp
  have m: "contains ''fever'' (lower ''I have fever and chest pain'')"
    by (simp add: lower_def lower_char_def)
  from classify_priority_order [of "''I have fever and chest pain''"] h
  have "triage_simple ''I have fever and chest pain'' =
     Inr (Some ''high'', Some ''Immediate attention required: chest pain'')" by blast
  with h m show ?thesis by blast
qed



section \<open>Extraction\<close>

lemma log_patient_data_known:
  "in_logs w sid \<Longrightarrow>
   log_patient_data sid cat v now w = (None, add_entry sid cat (LogEntry now v) w)"
  by (auto simp: in_logs_def log_patient_data_def add_entry_def Let_def split: option.splits)

lemma add_entry_known: "in_logs w sid \<Longrightarrow> in_logs (add_entry sid cat item w) sid"
  by (auto simp: in_logs_def add_entry_def split: option.splits)

lemma log_all_known: "in_logs w sid \<Longrightarrow> in_logs (log_all sid now cvs w) sid"
  by (induction cvs arbitrary: w) (simp_all add: add_entry_known)

lemma log_all_append: "log_all sid now (xs @ ys) w = log_all sid now ys (log_all sid now xs w)"
  by (induction xs arbitrary: w) auto

lemma and_then_log:
  assumes "in_logs w sid"
    and "\<And>w'. in_logs w' sid \<Longrightarrow> f w' = (None, log_all sid now xs w')"
    and "\<And>w'. in_logs w' sid \<Longrightarrow> g w' = (None, log_all sid now ys w')"
  shows "and_then f g w = (None, log_all sid now (xs @ ys) w)"
  using assms by (simp add: and_then_def log_all_append log_all_known)

lemma when_do_log:
  "in_logs w sid \<Longrightarrow>
   when_do b (log_patient_data sid cat v now) w = (None, log_all sid now (if b then [(cat, v)] else []) w)"
  by (simp add: when_do_def log_patient_data_known)

lemma case_log:
  "in_logs w sid \<Longrightarrow>
   (case x of None \<Rightarrow> (\<lambda>w. (None, w)) | Some m \<Rightarrow> log_patient_data sid cat (h m) now) w =
   (None, log_all sid now (case x of None \<Rightarrow> [] | Some m \<Rightarrow> [(cat, h m)]) w)"
  by (cases x) (simp_all add: log_patient_data_known)

lemma detect_and_log_basic_known:
  assumes "in_logs w sid"
  shows "detect_and_log_basic sid txt now w = (None, log_all sid now (extracted txt) w)"
  unfolding detect_and_log_basic_def extracted_def Let_def
  using assms
  by (intro and_then_log case_log when_do_log) 


lemma extracted_example: "extracted ''I took 450 steps and feeling happy'' =
  [(''mobility'', ''450 steps''), (''medication'', ''I took 450 steps and feeling happy''),
   (''mood'', ''I took 450 steps and feeling happy'')]"
  by code_simp

lemma entries_add_entry:
  "entries (add_entry sid cat item w) sid' cat' =
     (if in_logs w sid \<and> sid' = sid \<and> cat' = cat then entries w sid cat @ [item]
      else entries w sid' cat')"
  by (auto simp: entries_def add_entry_def in_logs_def split: option.splits)

lemma entries_log_all:
  "in_logs w sid \<Longrightarrow>
   entries (log_all sid now cvs w) sid' cat =
     (if sid' = sid
      then entries w sid cat @ map (\<lambda>cv. LogEntry now (snd cv)) (filter (\<lambda>cv. fst cv = cat) cvs)
      else entries w sid' cat)"
proof (induction cvs arbitrary: w)
  case Nil
  then show ?case by simp
next
  case (Cons cv cvs)
  from Cons.prems have k: "in_logs (add_entry sid (fst cv) (LogEntry now (snd cv)) w) sid"
    by (rule add_entry_known)
  show ?case
    using Cons.prems by (simp add: Cons.IH [OF k] entries_add_entry)
qed

lemma add_entry_frame:
  "add_entry sid cat item w = w\<lparr>patient_logs := patient_logs (add_entry sid cat item w)\<rparr>"
  by (simp add: add_entry_def split: option.splits)

lemma log_all_frame:
  "log_all sid now cvs w = w\<lparr>patient_logs := patient_logs (log_all sid now cvs w)\<rparr>"
proof (induction cvs arbitrary: w)
  case Nil
  then show ?case by simp
next
  case (Cons cv cvs)
  have "log_all sid now (cv # cvs) w = log_all sid now cvs (add_entry sid (fst cv) (LogEntry now (snd cv)) w)"
    by simp
  also have "\<dots> = (add_entry sid (fst cv) (LogEntry now (snd cv)) w)
      \<lparr>patient_logs := patient_logs (log_all sid now (cv # cvs) w)\<rparr>"
    using Cons.IH [of "add_entry sid (fst cv) (LogEntry now (snd cv)) w"] by simp
  also have "\<dots> = w\<lparr>patient_logs := patient_logs (log_all sid now (cv # cvs) w)\<rparr>"
    by (subst add_entry_frame) simp
  finally show ?case .
qed

lemma demo_in_logs: "in_logs demo_world ''s1''"
  by (simp add: in_logs_def demo_world_def)

text \<open>
  Claim C5, as amended.  For a session that has its logs, \<open>detect_and_log_basic\<close> on
  "I took 450 steps and feeling happy" appends exactly three entries: a mobility entry
  with value "450 steps", a medication entry whose value is the raw message (the message
  contains the word "took") and a mood entry whose value is the raw message; no other
  category receives an entry.
\<close>

theorem extract_example:
  assumes "in_logs w sid"
  shows "\<exists>w'. detect_and_log_basic sid ''I took 450 steps and feeling happy'' now w = (None, w') \<and>
     entries w' sid ''mobility'' = entries w sid ''mobility'' @ [LogEntry now ''450 steps''] \<and>
     entries w' sid ''medication'' = entries w sid ''medication'' @ [LogEntry now ''I took 450 steps and feeling happy''] \<and>
     entries w' sid ''mood'' = entries w sid ''mood'' @ [LogEntry now ''I took 450 steps and feeling happy''] \<and>
     (\<forall>cat. cat \<noteq> ''mobility'' \<and> cat \<noteq> ''medication'' \<and> cat \<noteq> ''mood'' \<longrightarrow>
        entries w' sid cat = entries w sid cat)"
  using assms by (simp add: detect_and_log_basic_known extracted_example entries_log_all del: log_all.simps)

theorem extract_example_witness:
  "in_logs demo_world ''s1'' \<and>
   entries (snd (detect_and_log_basic ''s1'' ''I took 450 steps and feeling happy'' ''t0'' demo_world))
     ''s1'' ''mobility'' = [LogEntry ''t0'' ''450 steps'']"
proof -
  have e: "entries demo_world ''s1'' ''mobility'' = []"
    by (simp add: entries_def demo_world_def empty_logs_def)
  from extract_example [OF demo_in_logs, of "''t0''"]
  obtain w' where d: "detect_and_log_basic ''s1'' ''I took 450 steps and feeling happy'' ''t0'' demo_world = (None, w')"
    and m: "entries w' ''s1'' ''mobility'' = entries demo_world ''s1'' ''mobility'' @ [LogEntry ''t0'' ''450 steps'']"
    by blast
  from d have "snd (detect_and_log_basic ''s1'' ''I took 450 steps and feeling happy'' ''t0'' demo_world) = w'"
    by simp
  with m e demo_in_logs show ?thesis by simp
qed

text \<open>
  Claim C5 as stated fails: it allows a mobility and a mood entry and nothing else, and
  the code also logs a medication entry for that message.
\<close>

theorem extract_example_counterexample:
  "entries (snd (detect_and_log_basic ''s1'' ''I took 450 steps and feeling happy'' ''t0'' demo_world)) ''s1'' ''medication''
     = [LogEntry ''t0'' ''I took 450 steps and feeling happy'']"
proof -
  let ?msg = "''I took 450 steps and feeling happy''"
  have "detect_and_log_basic ''s1'' ?msg ''t0'' demo_world = (None, log_all ''s1'' ''t0'' (extracted ?msg) demo_world)"
    by (rule detect_and_log_basic_known [OF demo_in_logs])
  then have "entries (snd (detect_and_log_basic ''s1'' ?msg ''t0'' demo_world)) ''s1'' ''medication'' =
     entries demo_world ''s1'' ''medication'' @ [LogEntry ''t0'' ?msg]"
    by (simp add: extracted_example entries_log_all [OF demo_in_logs] del: log_all.simps)
  moreover have "entries demo_world ''s1'' ''medication'' = []"
    by (simp add: entries_def demo_world_def empty_logs_def)
  ultimately show ?thesis by simp
qed



section \<open>Facts about the matcher\<close>

lemma search_from_Some:
  "search_from ic r p s = Some m \<Longrightarrow>
   \<exists>p' s'. suffix s' s \<and> rmatch ic r (p', s', []) \<noteq> [] \<and>
     m = snd (snd (hd (rmatch ic r (p', s', []))))"
proof (induction s arbitrary: p)
  case Nil
  then have "rmatch ic r (p, [], []) \<noteq> [] \<and> m = snd (snd (hd (rmatch ic r (p, [], []))))"
    by (auto split: list.splits)
  moreover have "suffix [] ([] :: string)" by simp
  ultimately show ?case by blast
next
  case (Cons c cs)
  show ?case
  proof (cases "rmatch ic r (p, c # cs, [])")
    case Nil
    with Cons.prems have "search_from ic r (Some c) cs = Some m" by simp
    from Cons.IH [OF this] obtain p' s' where
      "suffix s' cs" "rmatch ic r (p', s', []) \<noteq> []" "m = snd (snd (hd (rmatch ic r (p', s', []))))"
      by blast
    moreover from this(1) have "suffix s' (c # cs)" by (rule suffix_ConsI)
    ultimately show ?thesis by blast
  next
    case (Cons st rest)
    with Cons.prems have "rmatch ic r (p, c # cs, []) \<noteq> [] \<and>
        m = snd (snd (hd (rmatch ic r (p, c # cs, []))))" by simp
    moreover have "suffix (c # cs) (c # cs)" by simp
    ultimately show ?thesis by blast
  qed
qed

lemma re_search_Some:
  "re_search ic r s = Some m \<Longrightarrow>
   \<exists>p' s'. suffix s' s \<and> rmatch ic r (p', s', []) \<noteq> [] \<and>
     m = snd (snd (hd (rmatch ic r (p', s', []))))"
  unfolding re_search_def by (rule search_from_Some)

lemma report_steps_groups:
  "st \<in> set (rmatch False report_steps_rx (p, s, [])) \<Longrightarrow> \<exists>v. snd (snd st) = [(1, v)]"
  by (auto simp: report_steps_rx_def advance_def capture_def Let_def split: if_splits)

lemma report_steps_group1:
  assumes "re_search False report_steps_rx s = Some m"
  shows "\<exists>v. group m 1 = Some v"
proof -
  from re_search_Some [OF assms] obtain p' s' where
    r: "rmatch False report_steps_rx (p', s', []) \<noteq> []"
    and m: "m = snd (snd (hd (rmatch False report_steps_rx (p', s', []))))" by blast
  from r have "hd (rmatch False report_steps_rx (p', s', [])) \<in> set (rmatch False report_steps_rx (p', s', []))"
    by (rule hd_in_set)
  from report_steps_groups [OF this] m show ?thesis by (auto simp: group_def)
qed


section \<open>The report\<close>

lemma values_of_total: "list_all is_LogEntry xs \<Longrightarrow> \<exists>vs. values_of xs = Inr vs"
  by (induction xs) (auto simp: value_of_def split: log_item.splits)

lemma total_steps_total: "list_all is_LogEntry xs \<Longrightarrow> \<exists>n. total_steps xs acc = Inr n"
proof (induction xs arbitrary: acc)
  case Nil
  then show ?case by simp
next
  case (Cons x xs)
  then obtain t v where x: "x = LogEntry t v" by (cases x) auto
  from Cons.prems have xs: "list_all is_LogEntry xs" by simp
  show ?case
  proof (cases "re_search False report_steps_rx v")
    case None
    with x Cons.IH [OF xs] show ?thesis by (simp add: value_of_def)
  next
    case (Some mm)
    from report_steps_group1 [OF Some] obtain d where "group mm 1 = Some d" by blast
    with x Some Cons.IH [OF xs] show ?thesis by (simp add: value_of_def)
  qed
qed

lemma list_all_last: "list_all P xs \<Longrightarrow> xs \<noteq> [] \<Longrightarrow> P (last xs)"
  by (simp add: list_all_iff)

lemma value_of_total: "is_LogEntry x \<Longrightarrow> \<exists>v. value_of x = Inr v"
  by (cases x) (auto simp: value_of_def)

lemma pain_line_total:
  assumes "list_all is_LogEntry xs"
  shows "\<exists>l. pain_line xs = Inr l"
proof (cases "xs = []")
  case True
  then show ?thesis by (simp add: pain_line_def)
next
  case False
  from value_of_total [OF list_all_last [OF assms False]] obtain v where "value_of (last xs) = Inr v" by blast
  with False show ?thesis by (simp add: pain_line_def bind_exn_def)
qed

lemma mobility_line_total:
  assumes "list_all is_LogEntry xs"
  shows "\<exists>l. mobility_line xs = Inr l"
proof (cases "xs = []")
  case True
  then show ?thesis by (simp add: mobility_line_def)
next
  case False
  from total_steps_total [OF assms] obtain n where n: "total_steps xs 0 = Inr n" by blast
  from value_of_total [OF list_all_last [OF assms False]] obtain v where "value_of (last xs) = Inr v" by blast
  with n False show ?thesis by (simp add: mobility_line_def bind_exn_def)
qed

lemma mood_line_total:
  assumes "list_all is_LogEntry xs"
  shows "\<exists>l. mood_line xs = Inr l"
proof -
  from assms have "list_all is_LogEntry (last_n 7 xs)"
    by (auto simp: last_n_def list_all_iff dest: in_set_dropD)
  from values_of_total [OF this] obtain vs where "values_of (last_n 7 xs) = Inr vs" by blast
  then show ?thesis by (simp add: mood_line_def bind_exn_def)
qed

lemma report_by_entries:
  "generate_report_text sid w =
     bind_exn (pain_line (entries w sid ''pain'')) (\<lambda>l1.
     bind_exn (mobility_line (entries w sid ''mobility'')) (\<lambda>l3.
     bind_exn (mood_line (entries w sid ''mood'')) (\<lambda>l4.
       Inr (join [CHR 0x0A]
         [l1,
          pill_sign @ '' Medication logs: '' @ str_nat (length (entries w sid ''medication'')) @ '' entries.'',
          l3, l4,
          warning_sign @ '' Symptom reports: '' @ str_nat (length (entries w sid ''symptoms'')),
          stethoscope @ '' Wound/photo uploads: '' @ str_nat (length (entries w sid ''wound'')),
          alerts_line (case alerts_store w sid of None \<Rightarrow> [] | Some a \<Rightarrow> a)]))))"
  by (simp add: generate_report_text_def entries_def Let_def split: option.splits)

lemma str_nat_0: "str_nat 0 = ''0''"
  by code_simp

lemma report_total:
  assumes "list_all is_LogEntry (entries w sid ''pain'')"
    and "list_all is_LogEntry (entries w sid ''mobility'')"
    and "list_all is_LogEntry (entries w sid ''mood'')"
  shows "\<exists>r. generate_report_text sid w = Inr r"
proof -
  from pain_line_total [OF assms(1)] obtain l1 where "pain_line (entries w sid ''pain'') = Inr l1" by blast
  moreover from mobility_line_total [OF assms(2)] obtain l3 where "mobility_line (entries w sid ''mobility'') = Inr l3" by blast
  moreover from mood_line_total [OF assms(3)] obtain l4 where "mood_line (entries w sid ''mood'') = Inr l4" by blast
  ultimately show ?thesis by (simp add: report_by_entries bind_exn_def)
qed

lemma report_empty:
  assumes "entries w sid ''pain'' = []" "entries w sid ''medication'' = []"
    "entries w sid ''mobility'' = []" "entries w sid ''mood'' = []"
    "entries w sid ''symptoms'' = []" "entries w sid ''wound'' = []"
    "alerts_store w sid = None \<or> alerts_store w sid = Some []"
  shows "generate_report_text sid w = Inr empty_report"
  using assms
  by (auto simp: report_by_entries bind_exn_def pain_line_def mobility_line_def mood_line_def
      alerts_line_def str_nat_0 empty_report_def)


lemma get_session_id_new:
  assumes "flask_session w = Some None"
  shows "get_session_id w =
     (Inr (shd (token_supply w)),
      w\<lparr>token_supply := stl (token_supply w),
        flask_session := Some (Some (shd (token_supply w))),
        conversation_histories := (conversation_histories w)(shd (token_supply w) \<mapsto> []),
        patient_logs := (patient_logs w)(shd (token_supply w) \<mapsto> empty_logs),
        alerts_store := (alerts_store w)(shd (token_supply w) \<mapsto> [])\<rparr>)"
  using assms by (simp add: get_session_id_def token_hex_def Let_def)

lemma entries_empty_logs: "patient_logs w sid = Some empty_logs \<Longrightarrow> entries w sid cat = []"
  by (simp add: entries_def empty_logs_def)

text \<open>
  Claim C9, as amended.  \<open>generate_report_text\<close> on a session without entries and
  without alerts never fails and returns one fixed text, with a fixed line for every
  category: "Pain logs: no entries yet.", "Medication logs: 0 entries.",
  "Mobility: no logs yet.", "Mood: no entries yet.", "Symptom reports: 0",
  "Wound/photo uploads: 0", and the sentinel "No active alerts.".  This holds whether the
  session, a category or the alert list is missing or empty, and in particular for the
  session \<open>get_session_id\<close> has just created.  On a partially populated session, whose
  pain, mobility and mood lists hold log entries, the report never fails either.
\<close>

theorem report_empty_session:
  "(entries w sid ''pain'' = [] \<and> entries w sid ''medication'' = [] \<and>
    entries w sid ''mobility'' = [] \<and> entries w sid ''mood'' = [] \<and>
    entries w sid ''symptoms'' = [] \<and> entries w sid ''wound'' = [] \<and>
    (alerts_store w sid = None \<or> alerts_store w sid = Some []) \<longrightarrow>
    generate_report_text sid w = Inr empty_report)
   \<and> (list_all is_LogEntry (entries w sid ''pain'') \<and>
       list_all is_LogEntry (entries w sid ''mobility'') \<and>
       list_all is_LogEntry (entries w sid ''mood'') \<longrightarrow>
       (\<exists>r. generate_report_text sid w = Inr r))
   \<and> (flask_session w = Some None \<longrightarrow>
       (\<exists>new_sid w'. get_session_id w = (Inr new_sid, w') \<and>
          generate_report_text new_sid w' = Inr empty_report))"
proof (intro conjI impI)
  assume "entries w sid ''pain'' = [] \<and> entries w sid ''medication'' = [] \<and>
    entries w sid ''mobility'' = [] \<and> entries w sid ''mood'' = [] \<and>
    entries w sid ''symptoms'' = [] \<and> entries w sid ''wound'' = [] \<and>
    (alerts_store w sid = None \<or> alerts_store w sid = Some [])"
  then show "generate_report_text sid w = Inr empty_report"
    by (intro report_empty) simp_all
next
  assume "list_all is_LogEntry (entries w sid ''pain'') \<and>
       list_all is_LogEntry (entries w sid ''mobility'') \<and>
       list_all is_LogEntry (entries w sid ''mood'')"
  then show "\<exists>r. generate_report_text sid w = Inr r"
    by (intro report_total) simp_all
next
  assume f: "flask_session w = Some None"
  let ?sid = "shd (token_supply w)"
  let ?w' = "snd (get_session_id w)"
  from get_session_id_new [OF f] have g: "get_session_id w = (Inr ?sid, ?w')" by simp
  from get_session_id_new [OF f] have pl: "patient_logs ?w' ?sid = Some empty_logs"
    and al: "alerts_store ?w' ?sid = Some []" by simp_all
  have "generate_report_text ?sid ?w' = Inr empty_report"
    by (rule report_empty) (simp_all add: entries_empty_logs [OF pl] al)
  with g show "\<exists>new_sid w'. get_session_id w = (Inr new_sid, w') \<and>
          generate_report_text new_sid w' = Inr empty_report" by blast
qed

text \<open>The theorem at the session \<open>s1\<close> of \<open>demo_world\<close>.\<close>

theorem report_empty_session_witness:
  "entries demo_world ''s1'' ''pain'' = [] \<and> alerts_store demo_world ''s1'' = Some [] \<and>
   generate_report_text ''s1'' demo_world = Inr empty_report"
proof -
  have pl: "patient_logs demo_world ''s1'' = Some empty_logs" by (simp add: demo_world_def)
  have al: "alerts_store demo_world ''s1'' = Some []" by (simp add: demo_world_def)
  from report_empty_session [of demo_world "''s1''"] entries_empty_logs [OF pl] al
  have "generate_report_text ''s1'' demo_world = Inr empty_report" by simp
  with entries_empty_logs [OF pl] al show ?thesis by simp
qed

text \<open>
  Claim C9 as stated fails: the message is "no entries yet" for pain and mood only; the
  lines of medication, mobility, symptoms and wound do not contain it.
\<close>

theorem report_empty_session_counterexample:
  "generate_report_text ''s1'' demo_world = Inr (join [CHR 0x0A]
     [pushpin @ '' Pain logs: no entries yet.'',
      pill_sign @ '' Medication logs: 0 entries.'',
      walker @ '' Mobility: no logs yet.'',
      smiley @ '' Mood: no entries yet.'',
      warning_sign @ '' Symptom reports: 0'',
      stethoscope @ '' Wound/photo uploads: 0'',
      magnifier @ '' No active alerts.''])
   \<and> \<not> contains ''no entries yet'' (pill_sign @ '' Medication logs: 0 entries.'')
   \<and> \<not> contains ''no entries yet'' (walker @ '' Mobility: no logs yet.'')
   \<and> \<not> contains ''no entries yet'' (warning_sign @ '' Symptom reports: 0'')
   \<and> \<not> contains ''no entries yet'' (stethoscope @ '' Wound/photo uploads: 0'')"
proof -
  have pl: "patient_logs demo_world ''s1'' = Some empty_logs" by (simp add: demo_world_def)
  have al: "alerts_store demo_world ''s1'' = Some []" by (simp add: demo_world_def)
  have "generate_report_text ''s1'' demo_world = Inr empty_report"
    by (rule report_empty) (simp_all add: entries_empty_logs [OF pl] al)
  moreover have "\<not> contains ''no entries yet'' (pill_sign @ '' Medication logs: 0 entries.'')"
    by (simp add: pill_sign_def)
  moreover have "\<not> contains ''no entries yet'' (walker @ '' Mobility: no logs yet.'')"
    by (simp add: walker_def)
  moreover have "\<not> contains ''no entries yet'' (warning_sign @ '' Symptom reports: 0'')"
    by (simp add: warning_sign_def)
  moreover have "\<not> contains ''no entries yet'' (stethoscope @ '' Wound/photo uploads: 0'')"
    by (simp add: stethoscope_def)
  ultimately show ?thesis by (simp only: empty_report_def simp_thms)
qed



section \<open>Delivery of a reminder: what the handler writes\<close>

lemma history_update_history:
  "history (update_history sid u b w) sid' =
     (if sid' = sid then history w sid @ [\<lparr>role = ''user'', parts = [u]\<rparr>, \<lparr>role = ''model'', parts = [b]\<rparr>]
      else history w sid')"
  by (simp add: history_def update_history_def Let_def)

lemma update_history_frame:
  "update_history sid u b w = w\<lparr>conversation_histories := conversation_histories (update_history sid u b w)\<rparr>"
  by (simp add: update_history_def Let_def)

lemma update_history_other [simp]:
  "patient_logs (update_history sid u b w) = patient_logs w"
  "alerts_store (update_history sid u b w) = alerts_store w"
  "reminders_store (update_history sid u b w) = reminders_store w"
  "scheduler_jobs (update_history sid u b w) = scheduler_jobs w"
  "token_supply (update_history sid u b w) = token_supply w"
  "flask_session (update_history sid u b w) = flask_session w"
  by (simp_all add: update_history_def Let_def)

lemma in_logs_update_history [simp]: "in_logs (update_history sid u b w) s = in_logs w s"
  by (simp add: in_logs_def)

lemma entries_update_history [simp]: "entries (update_history sid u b w) s c = entries w s c"
  by (simp add: entries_def)

lemma add_entry_other [simp]:
  "conversation_histories (add_entry sid cat item w) = conversation_histories w"
  "alerts_store (add_entry sid cat item w) = alerts_store w"
  "reminders_store (add_entry sid cat item w) = reminders_store w"
  "scheduler_jobs (add_entry sid cat item w) = scheduler_jobs w"
  "token_supply (add_entry sid cat item w) = token_supply w"
  "flask_session (add_entry sid cat item w) = flask_session w"
  by (simp_all add: add_entry_def split: option.splits)

lemma history_add_entry [simp]: "history (add_entry sid cat item w) s = history w s"
  by (simp add: history_def)

lemma in_logs_add_entry [simp]: "in_logs (add_entry sid cat item w) s = in_logs w s"
  by (auto simp: in_logs_def add_entry_def split: option.splits)

lemma schedule_reminder_job_known:
  assumes "patient_logs w sid = Some logs" and "logs ''reminders'' = Some xs"
    and "reminders_store w rid = Some r"
  shows "schedule_reminder_job rid sid when_iso txt now w =
     add_entry sid ''reminders'' (ReminderEntry rid when_iso txt True)
       ((add_entry sid ''medication'' (LogEntry now (''Reminder triggered: '' @ txt))
          (update_history sid ''(system reminder triggered)'' (delivered_text txt when_iso) w))
        \<lparr>reminders_store := (reminders_store w)(rid \<mapsto> r\<lparr>rem_sent := True\<rparr>)\<rparr>)"
proof -
  from assms(1) have k: "in_logs w sid" by (simp add: in_logs_def)
  show ?thesis
    unfolding schedule_reminder_job_def Let_def
    using assms k
    by (simp add: log_patient_data_known delivered_text_def) (simp add: add_entry_def)
qed

lemma log_patient_data_reminders_store:
  "reminders_store (snd (log_patient_data sid cat v now w)) = reminders_store w"
  by (auto simp: log_patient_data_def get_session_id_def Let_def token_hex_def
      split: option.splits if_splits prod.splits)

lemma schedule_reminder_job_sent_stays:
  assumes "reminders_store w rid' = Some r'" and "rem_sent r'"
  shows "reminders_store (schedule_reminder_job rid sid when_iso txt now w) rid' = Some r'"
proof -
  let ?w1 = "update_history sid ''(system reminder triggered)'' (delivered_text txt when_iso) w"
  let ?lp = "log_patient_data sid ''medication'' (''Reminder triggered: '' @ txt) now ?w1"
  have rs: "reminders_store (snd ?lp) = reminders_store w"
    by (simp add: log_patient_data_reminders_store)
  obtain e w2 where lp: "?lp = (e, w2)" by (cases ?lp)
  with rs have rs2: "reminders_store w2 = reminders_store w" by simp
  from assms have same: "r'\<lparr>rem_sent := True\<rparr> = r'" by simp
  show ?thesis
    unfolding schedule_reminder_job_def Let_def delivered_text_def [symmetric]
    using lp rs2 assms same
    by (auto split: option.splits)
qed


lemma entries_reminders_store_update [simp]:
  "entries (w\<lparr>reminders_store := rs\<rparr>) s c = entries w s c"
  by (simp add: entries_def)

lemma history_reminders_store_update [simp]:
  "history (w\<lparr>reminders_store := rs\<rparr>) s = history w s"
  by (simp add: history_def)

lemma in_logs_reminders_store_update [simp]:
  "in_logs (w\<lparr>reminders_store := rs\<rparr>) s = in_logs w s"
  by (simp add: in_logs_def)

lemma schedule_reminder_job_effects:
  assumes "patient_logs w sid = Some logs" and "logs ''reminders'' = Some xs"
    and "reminders_store w rid = Some r"
  shows "reminders_store (schedule_reminder_job rid sid when_iso txt now w) =
           (reminders_store w)(rid \<mapsto> r\<lparr>rem_sent := True\<rparr>)"
    and "history (schedule_reminder_job rid sid when_iso txt now w) sid =
           history w sid @ [\<lparr>role = ''user'', parts = [''(system reminder triggered)'']\<rparr>,
                            \<lparr>role = ''model'', parts = [delivered_text txt when_iso]\<rparr>]"
    and "entries (schedule_reminder_job rid sid when_iso txt now w) sid ''medication'' =
           entries w sid ''medication'' @ [LogEntry now (''Reminder triggered: '' @ txt)]"
    and "entries (schedule_reminder_job rid sid when_iso txt now w) sid ''reminders'' =
           xs @ [ReminderEntry rid when_iso txt True]"
proof -
  from assms(1) have k: "in_logs w sid" by (simp add: in_logs_def)
  from assms(1,2) have e: "entries w sid ''reminders'' = xs" by (simp add: entries_def)
  note j = schedule_reminder_job_known [OF assms, of when_iso "txt" now]
  show "reminders_store (schedule_reminder_job rid sid when_iso txt now w) =
           (reminders_store w)(rid \<mapsto> r\<lparr>rem_sent := True\<rparr>)"
    by (simp add: j)
  show "history (schedule_reminder_job rid sid when_iso txt now w) sid =
           history w sid @ [\<lparr>role = ''user'', parts = [''(system reminder triggered)'']\<rparr>,
                            \<lparr>role = ''model'', parts = [delivered_text txt when_iso]\<rparr>]"
    by (simp add: j history_update_history)
  show "entries (schedule_reminder_job rid sid when_iso txt now w) sid ''medication'' =
           entries w sid ''medication'' @ [LogEntry now (''Reminder triggered: '' @ txt)]"
    using k by (simp add: j entries_add_entry)
  show "entries (schedule_reminder_job rid sid when_iso txt now w) sid ''reminders'' =
           xs @ [ReminderEntry rid when_iso txt True]"
    using k e by (simp add: j entries_add_entry)
qed

text \<open>
  Claim C2, as amended.  The delivery handler never resets a delivered flag: a reminder
  whose flag is true keeps its record whatever the handler is run on, so the flag goes
  from false to true at most once.  The handler does not look at the flag, though.  Run
  on a registered reminder whose flag is already true, for a session that has its logs
  and its reminder list, it leaves the registry as it is and appends again: one history
  turn (the system prompt and the delivered text), one medication log entry, and one
  entry of the session's reminder list.
\<close>

theorem delivery_handler_repeats:
  "(\<forall>rid' r'. reminders_store w rid' = Some r' \<and> rem_sent r' \<longrightarrow>
      reminders_store (schedule_reminder_job rid sid when_iso txt now w) rid' = Some r')
   \<and> (patient_logs w sid = Some logs \<and> logs ''reminders'' = Some xs \<and>
       reminders_store w rid = Some r \<and> rem_sent r \<longrightarrow>
       reminders_store (schedule_reminder_job rid sid when_iso txt now w) = reminders_store w \<and>
       history (schedule_reminder_job rid sid when_iso txt now w) sid =
         history w sid @ [\<lparr>role = ''user'', parts = [''(system reminder triggered)'']\<rparr>,
                          \<lparr>role = ''model'', parts = [delivered_text txt when_iso]\<rparr>] \<and>
       entries (schedule_reminder_job rid sid when_iso txt now w) sid ''medication'' =
         entries w sid ''medication'' @ [LogEntry now (''Reminder triggered: '' @ txt)] \<and>
       entries (schedule_reminder_job rid sid when_iso txt now w) sid ''reminders'' =
         xs @ [ReminderEntry rid when_iso txt True])"
proof (intro conjI allI impI)
  fix rid' r'
  assume "reminders_store w rid' = Some r' \<and> rem_sent r'"
  then show "reminders_store (schedule_reminder_job rid sid when_iso txt now w) rid' = Some r'"
    by (simp add: schedule_reminder_job_sent_stays)
next
  assume a: "patient_logs w sid = Some logs \<and> logs ''reminders'' = Some xs \<and>
       reminders_store w rid = Some r \<and> rem_sent r"
  then have p: "patient_logs w sid = Some logs" and l: "logs ''reminders'' = Some xs"
    and r: "reminders_store w rid = Some r" and s: "rem_sent r" by simp_all
  from s have same: "r\<lparr>rem_sent := True\<rparr> = r" by simp
  from r have "(reminders_store w)(rid \<mapsto> r) = reminders_store w" by (rule map_upd_triv)
  with schedule_reminder_job_effects(1) [OF p l r, of when_iso "txt" now] same
  show "reminders_store (schedule_reminder_job rid sid when_iso txt now w) = reminders_store w"
    by simp
  show "history (schedule_reminder_job rid sid when_iso txt now w) sid =
         history w sid @ [\<lparr>role = ''user'', parts = [''(system reminder triggered)'']\<rparr>,
                          \<lparr>role = ''model'', parts = [delivered_text txt when_iso]\<rparr>]"
    by (rule schedule_reminder_job_effects(2) [OF p l r])
  show "entries (schedule_reminder_job rid sid when_iso txt now w) sid ''medication'' =
         entries w sid ''medication'' @ [LogEntry now (''Reminder triggered: '' @ txt)]"
    by (rule schedule_reminder_job_effects(3) [OF p l r])
  show "entries (schedule_reminder_job rid sid when_iso txt now w) sid ''reminders'' =
         xs @ [ReminderEntry rid when_iso txt True]"
    by (rule schedule_reminder_job_effects(4) [OF p l r])
qed

lemma delivered_world_facts:
  "patient_logs delivered_world ''s1'' = Some (empty_logs(''reminders'' \<mapsto>
        [ReminderEntry ''r1'' ''2024-03-10T17:00:00'' ''take antibiotic'' False,
         ReminderEntry ''r1'' ''2024-03-10T17:00:00'' ''take antibiotic'' True]))"
  "reminders_store delivered_world ''r1'' = Some \<lparr>rem_session_id = ''s1'',
        rem_when = ''2024-03-10T17:00:00'', rem_text = ''take antibiotic'', rem_sent = True\<rparr>"
  "history delivered_world ''s1'' = []"
  "entries delivered_world ''s1'' ''medication'' = []"
  by (simp_all add: delivered_world_def demo_world_def history_def entries_def empty_logs_def)

text \<open>The theorem at \<open>delivered_world\<close>, whose reminder \<open>r1\<close> is delivered.\<close>

theorem delivery_handler_repeats_witness:
  "reminders_store delivered_world ''r1'' = Some \<lparr>rem_session_id = ''s1'',
        rem_when = ''2024-03-10T17:00:00'', rem_text = ''take antibiotic'', rem_sent = True\<rparr> \<and>
   entries (schedule_reminder_job ''r1'' ''s1'' ''2024-03-10T17:00:00'' ''take antibiotic'' ''t1''
              delivered_world) ''s1'' ''medication'' = [LogEntry ''t1'' ''Reminder triggered: take antibiotic'']"
proof -
  note f = delivered_world_facts
  from delivery_handler_repeats [of delivered_world "''r1''" "''s1''" "''2024-03-10T17:00:00''"
      "''take antibiotic''" "''t1''", THEN conjunct2, rule_format, OF conjI [OF f(1) conjI [OF _ conjI [OF f(2)]]]]
  have "entries (schedule_reminder_job ''r1'' ''s1'' ''2024-03-10T17:00:00'' ''take antibiotic'' ''t1''
              delivered_world) ''s1'' ''medication'' =
        entries delivered_world ''s1'' ''medication'' @ [LogEntry ''t1'' (''Reminder triggered: '' @ ''take antibiotic'')]"
    by simp
  with f show ?thesis by simp
qed

text \<open>
  Claim C2 as stated fails: a second run on the delivered reminder \<open>r1\<close> is no no-op, it
  appends a history turn, a medication entry and a reminder-list entry.
\<close>

theorem delivery_handler_repeats_counterexample:
  "reminders_store delivered_world ''r1'' = Some \<lparr>rem_session_id = ''s1'',
        rem_when = ''2024-03-10T17:00:00'', rem_text = ''take antibiotic'', rem_sent = True\<rparr> \<and>
   history delivered_world ''s1'' = [] \<and>
   history (schedule_reminder_job ''r1'' ''s1'' ''2024-03-10T17:00:00'' ''take antibiotic'' ''t1''
              delivered_world) ''s1'' =
     [\<lparr>role = ''user'', parts = [''(system reminder triggered)'']\<rparr>,
      \<lparr>role = ''model'', parts = [delivered_text ''take antibiotic'' ''2024-03-10T17:00:00'']\<rparr>] \<and>
   entries delivered_world ''s1'' ''medication'' = [] \<and>
   entries (schedule_reminder_job ''r1'' ''s1'' ''2024-03-10T17:00:00'' ''take antibiotic'' ''t1''
              delivered_world) ''s1'' ''medication'' = [LogEntry ''t1'' ''Reminder triggered: take antibiotic''] \<and>
   entries (schedule_reminder_job ''r1'' ''s1'' ''2024-03-10T17:00:00'' ''take antibiotic'' ''t1''
              delivered_world) ''s1'' ''reminders'' =
     [ReminderEntry ''r1'' ''2024-03-10T17:00:00'' ''take antibiotic'' False,
      ReminderEntry ''r1'' ''2024-03-10T17:00:00'' ''take antibiotic'' True,
      ReminderEntry ''r1'' ''2024-03-10T17:00:00'' ''take antibiotic'' True]"
proof -
  note f = delivered_world_facts
  have l: "(empty_logs(''reminders'' \<mapsto>
        [ReminderEntry ''r1'' ''2024-03-10T17:00:00'' ''take antibiotic'' False,
         ReminderEntry ''r1'' ''2024-03-10T17:00:00'' ''take antibiotic'' True])) ''reminders'' =
      Some [ReminderEntry ''r1'' ''2024-03-10T17:00:00'' ''take antibiotic'' False,
         ReminderEntry ''r1'' ''2024-03-10T17:00:00'' ''take antibiotic'' True]" by simp
  note e = schedule_reminder_job_effects [OF f(1) l f(2), of "''2024-03-10T17:00:00''" "''take antibiotic''" "''t1''"]
  from e(2) f(3) have h: "history (schedule_reminder_job ''r1'' ''s1'' ''2024-03-10T17:00:00'' ''take antibiotic'' ''t1''
              delivered_world) ''s1'' =
     [\<lparr>role = ''user'', parts = [''(system reminder triggered)'']\<rparr>,
      \<lparr>role = ''model'', parts = [delivered_text ''take antibiotic'' ''2024-03-10T17:00:00'']\<rparr>]" by simp
  from e(3) f(4) have m: "entries (schedule_reminder_job ''r1'' ''s1'' ''2024-03-10T17:00:00'' ''take antibiotic'' ''t1''
              delivered_world) ''s1'' ''medication'' = [LogEntry ''t1'' ''Reminder triggered: take antibiotic'']" by simp
  from e(4) have r: "entries (schedule_reminder_job ''r1'' ''s1'' ''2024-03-10T17:00:00'' ''take antibiotic'' ''t1''
              delivered_world) ''s1'' ''reminders'' =
     [ReminderEntry ''r1'' ''2024-03-10T17:00:00'' ''take antibiotic'' False,
      ReminderEntry ''r1'' ''2024-03-10T17:00:00'' ''take antibiotic'' True,
      ReminderEntry ''r1'' ''2024-03-10T17:00:00'' ''take antibiotic'' True]" by simp
  from f(2) f(3) h f(4) m r show ?thesis by (intro conjI)
qed



section \<open>The two records of a reminder\<close>

lemma chat_reminder_known:
  assumes "patient_logs w sid = Some logs" and "logs ''reminders'' = Some xs"
    and "group rm 1 = Some g1" and "group rm 2 = Some g2"
    and "chat_when_dt now (strip g1) = Inr d"
  shows "chat_reminder sid msg now rm w =
     ((200, check_mark @ '' Reminder scheduled at '' @ strftime_ymd_hm d @ '' to: '' @ strip g2),
      update_history sid msg
        (check_mark @ '' Reminder scheduled at '' @ strftime_ymd_hm d @ '' to: '' @ strip g2)
        (add_entry sid ''reminders'' (ReminderEntry (shd (token_supply w)) (isoformat d) (strip g2) False)
          (w\<lparr>token_supply := stl (token_supply w),
             reminders_store := (reminders_store w)(shd (token_supply w) \<mapsto>
                \<lparr>rem_session_id = sid, rem_when = isoformat d, rem_text = strip g2, rem_sent = False\<rparr>),
             scheduler_jobs := scheduler_jobs w @
                [\<lparr>run_date = d, job_reminder_id = shd (token_supply w), job_session_id = sid,
                  job_when_iso = isoformat d, job_text = strip g2\<rparr>]\<rparr>)))"
  using assms
  by (simp add: chat_reminder_def token_hex_def Let_def add_entry_def)

lemma chat_reminder_then_deliver:
  assumes "patient_logs w sid = Some logs" and "logs ''reminders'' = Some xs"
    and "group rm 1 = Some g1" and "group rm 2 = Some g2"
    and "chat_when_dt now (strip g1) = Inr d"
  shows "reminders_store (snd (chat_reminder sid msg now rm w)) (shd (token_supply w)) =
           Some \<lparr>rem_session_id = sid, rem_when = isoformat d, rem_text = strip g2, rem_sent = False\<rparr>"
    and "entries (snd (chat_reminder sid msg now rm w)) sid ''reminders'' =
           xs @ [ReminderEntry (shd (token_supply w)) (isoformat d) (strip g2) False]"
    and "scheduler_jobs (snd (chat_reminder sid msg now rm w)) = scheduler_jobs w @
           [\<lparr>run_date = d, job_reminder_id = shd (token_supply w), job_session_id = sid,
             job_when_iso = isoformat d, job_text = strip g2\<rparr>]"
    and "reminders_store (schedule_reminder_job (shd (token_supply w)) sid (isoformat d) (strip g2) t
           (snd (chat_reminder sid msg now rm w))) (shd (token_supply w)) =
           Some \<lparr>rem_session_id = sid, rem_when = isoformat d, rem_text = strip g2, rem_sent = True\<rparr>"
    and "entries (schedule_reminder_job (shd (token_supply w)) sid (isoformat d) (strip g2) t
           (snd (chat_reminder sid msg now rm w))) sid ''reminders'' =
           xs @ [ReminderEntry (shd (token_supply w)) (isoformat d) (strip g2) False,
                 ReminderEntry (shd (token_supply w)) (isoformat d) (strip g2) True]"
proof -
  let ?rid = "shd (token_supply w)"
  let ?w1 = "snd (chat_reminder sid msg now rm w)"
  let ?r0 = "\<lparr>rem_session_id = sid, rem_when = isoformat d, rem_text = strip g2, rem_sent = False\<rparr>"
  note c = chat_reminder_known [OF assms, of msg]
  from assms(1) have k: "in_logs w sid" by (simp add: in_logs_def)
  from assms(1,2) have e: "entries w sid ''reminders'' = xs" by (simp add: entries_def)
  show r1: "reminders_store ?w1 ?rid = Some ?r0"
    by (simp add: c)
  have p1: "patient_logs ?w1 sid = Some (logs(''reminders'' \<mapsto>
        xs @ [ReminderEntry ?rid (isoformat d) (strip g2) False]))"
    using assms(1,2) by (simp add: c add_entry_def)
  then show e1: "entries ?w1 sid ''reminders'' = xs @ [ReminderEntry ?rid (isoformat d) (strip g2) False]"
    by (simp add: entries_def)
  show "scheduler_jobs ?w1 = scheduler_jobs w @
           [\<lparr>run_date = d, job_reminder_id = ?rid, job_session_id = sid,
             job_when_iso = isoformat d, job_text = strip g2\<rparr>]"
    by (simp add: c)
  have l1: "(logs(''reminders'' \<mapsto> xs @ [ReminderEntry ?rid (isoformat d) (strip g2) False])) ''reminders'' =
      Some (xs @ [ReminderEntry ?rid (isoformat d) (strip g2) False])" by simp
  note j = schedule_reminder_job_effects [OF p1 l1 r1, of "isoformat d" "strip g2" t]
  from j(1) show "reminders_store (schedule_reminder_job ?rid sid (isoformat d) (strip g2) t ?w1) ?rid =
           Some \<lparr>rem_session_id = sid, rem_when = isoformat d, rem_text = strip g2, rem_sent = True\<rparr>"
    by simp
  from j(4) show "entries (schedule_reminder_job ?rid sid (isoformat d) (strip g2) t ?w1) sid ''reminders'' =
           xs @ [ReminderEntry ?rid (isoformat d) (strip g2) False,
                 ReminderEntry ?rid (isoformat d) (strip g2) True]"
    by simp
qed

text \<open>
  Claim C6, as amended.  The registry and the session's reminder list hold separate
  records of a reminder, not one shared record.  When step 4 of \<open>chat\<close> schedules a
  reminder, it stores a record with \<open>sent = False\<close> in the registry, appends a copy with
  \<open>sent = False\<close> to the session's list and hands the job to the scheduler.  When the
  handler then runs for that job, it sets the registry's flag and appends a second copy,
  with \<open>sent = True\<close>, to the session's list: the reminder is then in the list twice,
  and the first copy still says \<open>sent = False\<close> while the registry says \<open>True\<close>.
\<close>

theorem reminder_records_are_copies:
  assumes "patient_logs w sid = Some logs" and "logs ''reminders'' = Some xs"
    and "group rm 1 = Some g1" and "group rm 2 = Some g2"
    and "chat_when_dt now (strip g1) = Inr d"
  shows "reminders_store (snd (chat_reminder sid msg now rm w)) (shd (token_supply w)) =
           Some \<lparr>rem_session_id = sid, rem_when = isoformat d, rem_text = strip g2, rem_sent = False\<rparr>
    \<and> entries (snd (chat_reminder sid msg now rm w)) sid ''reminders'' =
           xs @ [ReminderEntry (shd (token_supply w)) (isoformat d) (strip g2) False]
    \<and> scheduler_jobs (snd (chat_reminder sid msg now rm w)) = scheduler_jobs w @
           [\<lparr>run_date = d, job_reminder_id = shd (token_supply w), job_session_id = sid,
             job_when_iso = isoformat d, job_text = strip g2\<rparr>]
    \<and> reminders_store (schedule_reminder_job (shd (token_supply w)) sid (isoformat d) (strip g2) t
           (snd (chat_reminder sid msg now rm w))) (shd (token_supply w)) =
           Some \<lparr>rem_session_id = sid, rem_when = isoformat d, rem_text = strip g2, rem_sent = True\<rparr>
    \<and> entries (schedule_reminder_job (shd (token_supply w)) sid (isoformat d) (strip g2) t
           (snd (chat_reminder sid msg now rm w))) sid ''reminders'' =
           xs @ [ReminderEntry (shd (token_supply w)) (isoformat d) (strip g2) False,
                 ReminderEntry (shd (token_supply w)) (isoformat d) (strip g2) True]"
  by (intro conjI chat_reminder_then_deliver [OF assms])

lemma remind_example:
  "re_search True remind_rx ''Remind me at 5 pm to take antibiotic'' =
     Some [(2, ''take antibiotic''), (1, ''5 pm'')]"
  by code_simp

lemma when_5pm_at_3pm: "chat_when_dt demo_now (strip ''5 pm'') = Inr demo_5pm"
  by code_simp

lemma isoformat_demo_5pm: "isoformat demo_5pm = ''2024-03-10T17:00:00''"
  by code_simp

lemma strip_take_antibiotic: "strip ''take antibiotic'' = ''take antibiotic''"
  by code_simp

lemma demo_world_facts:
  "patient_logs demo_world ''s1'' = Some empty_logs"
  "empty_logs ''reminders'' = Some []"
  "shd (token_supply demo_world) = ''0f''"
  by (simp_all add: demo_world_def empty_logs_def)

text \<open>The theorem at "Remind me at 5 pm to take antibiotic", sent at 3 PM in \<open>demo_world\<close>.\<close>

theorem reminder_records_are_copies_witness:
  "patient_logs demo_world ''s1'' = Some empty_logs \<and> empty_logs ''reminders'' = Some [] \<and>
   chat_when_dt demo_now (strip ''5 pm'') = Inr demo_5pm \<and>
   entries (snd (chat_reminder ''s1'' ''Remind me at 5 pm to take antibiotic'' demo_now
                   [(2, ''take antibiotic''), (1, ''5 pm'')] demo_world)) ''s1'' ''reminders'' =
     [ReminderEntry ''0f'' ''2024-03-10T17:00:00'' ''take antibiotic'' False]"
proof -
  have g1: "group [(2, ''take antibiotic''), (1, ''5 pm'')] 1 = Some ''5 pm''"
    and g2: "group [(2, ''take antibiotic''), (1, ''5 pm'')] 2 = Some ''take antibiotic''"
    by (simp_all add: group_def)
  from reminder_records_are_copies [OF demo_world_facts(1,2) g1 g2 when_5pm_at_3pm,
      of "''Remind me at 5 pm to take antibiotic''"]
  have "entries (snd (chat_reminder ''s1'' ''Remind me at 5 pm to take antibiotic'' demo_now
                   [(2, ''take antibiotic''), (1, ''5 pm'')] demo_world)) ''s1'' ''reminders'' =
     [] @ [ReminderEntry (shd (token_supply demo_world)) (isoformat demo_5pm) (strip ''take antibiotic'') False]"
    by blast
  then show ?thesis
    by (simp add: demo_world_facts when_5pm_at_3pm isoformat_demo_5pm strip_take_antibiotic)
qed

text \<open>
  Claim C6 as stated fails: after the delivery the reminder is in the session's list
  twice, once with \<open>sent = False\<close>, while the registry says \<open>sent = True\<close>.
\<close>

theorem reminder_records_are_copies_counterexample:
  "reminders_store (schedule_reminder_job ''0f'' ''s1'' ''2024-03-10T17:00:00'' ''take antibiotic'' ''t1''
      (snd (chat_reminder ''s1'' ''Remind me at 5 pm to take antibiotic'' demo_now
              [(2, ''take antibiotic''), (1, ''5 pm'')] demo_world))) ''0f'' =
     Some \<lparr>rem_session_id = ''s1'', rem_when = ''2024-03-10T17:00:00'', rem_text = ''take antibiotic'',
           rem_sent = True\<rparr> \<and>
   entries (schedule_reminder_job ''0f'' ''s1'' ''2024-03-10T17:00:00'' ''take antibiotic'' ''t1''
      (snd (chat_reminder ''s1'' ''Remind me at 5 pm to take antibiotic'' demo_now
              [(2, ''take antibiotic''), (1, ''5 pm'')] demo_world))) ''s1'' ''reminders'' =
     [ReminderEntry ''0f'' ''2024-03-10T17:00:00'' ''take antibiotic'' False,
      ReminderEntry ''0f'' ''2024-03-10T17:00:00'' ''take antibiotic'' True]"
proof -
  have g1: "group [(2, ''take antibiotic''), (1, ''5 pm'')] 1 = Some ''5 pm''"
    and g2: "group [(2, ''take antibiotic''), (1, ''5 pm'')] 2 = Some ''take antibiotic''"
    by (simp_all add: group_def)
  note c = chat_reminder_then_deliver [OF demo_world_facts(1,2) g1 g2 when_5pm_at_3pm]
  from c(4) c(5) show ?thesis
    by (simp add: demo_world_facts isoformat_demo_5pm strip_take_antibiotic)
qed



section \<open>The chat route: session, empty message, verdict\<close>

lemma get_session_id_known:
  assumes "flask_session w = Some (Some sid)" and "sid \<noteq> []"
    and "patient_logs w sid \<noteq> None" and "conversation_histories w sid \<noteq> None"
    and "alerts_store w sid \<noteq> None"
  shows "get_session_id w = (Inr sid, w)"
  using assms by (auto simp: get_session_id_def Let_def)

lemma get_session_id_Inr:
  assumes "get_session_id w = (Inr sid, w1)"
  shows "in_logs w1 sid" and "alerts_store w1 sid \<noteq> None" and "conversation_histories w1 sid \<noteq> None"
    and "reminders_store w1 = reminders_store w" and "scheduler_jobs w1 = scheduler_jobs w"
  using assms
  by (auto simp: get_session_id_def Let_def token_hex_def in_logs_def
      split: option.splits if_splits)




lemma chat_message:
  assumes "get_session_id w = (Inr sid, w1)" and "json_body req = Some jm"
    and "message_of req = msg" and "msg \<noteq> []"
  shows "chat req now ti reply w =
     (case triage_simple msg of
        Inl e \<Rightarrow> (trouble, log_all sid (isoformat now) (extracted msg) w1)
      | Inr (sev, rsn) \<Rightarrow>
          if truthy sev
          then (case alerts_store (log_all sid (isoformat now) (extracted msg) w1) sid of
                  None \<Rightarrow> (trouble, log_all sid (isoformat now) (extracted msg) w1)
                | Some al \<Rightarrow>
                    (let w3 = (log_all sid (isoformat now) (extracted msg) w1)
                               \<lparr>alerts_store := (alerts_store (log_all sid (isoformat now) (extracted msg) w1))(sid \<mapsto>
                                al @ [\<lparr>alert_time = isoformat now, severity = sev, reason = rsn\<rparr>])\<rparr>
                     in if sev = Some ''high''
                        then (let bot_text = warning_sign @ '' This sounds serious: '' @ fmt_opt rsn @
                                    ''. Please call emergency services or contact your doctor immediately.''
                              in ((200, bot_text), update_history sid msg bot_text w3))
                        else if sev = Some ''medium''
                        then (let bot_text = ''I noticed: '' @ fmt_opt rsn @
                                    ''. Please consider contacting your doctor '' @ em_dash @
                                    '' I will log this and notify them if needed.''
                              in ((200, bot_text), update_history sid msg bot_text w3))
                        else chat_steps sid msg now ti reply w3))
          else chat_steps sid msg now ti reply (log_all sid (isoformat now) (extracted msg) w1))"
proof -
  from get_session_id_Inr(1) [OF assms(1)] have k: "in_logs w1 sid" .
  from assms(2,3) have m: "(if (case jm of None \<Rightarrow> [] | Some s \<Rightarrow> s) \<noteq> []
       then (case jm of None \<Rightarrow> [] | Some s \<Rightarrow> s)
       else (case form_message req of None \<Rightarrow> [] | Some s \<Rightarrow> s)) = msg"
    by (simp add: message_of_def Let_def)
  have "chat req now ti reply w =
     (case detect_and_log_basic sid msg (isoformat now) w1 of
        (Some e, w2) \<Rightarrow> (trouble, w2)
      | (None, w2) \<Rightarrow>
     (case triage_simple msg of
        Inl e \<Rightarrow> (trouble, w2)
      | Inr (sev, rsn) \<Rightarrow>
          if truthy sev
          then (case alerts_store w2 sid of
                  None \<Rightarrow> (trouble, w2)
                | Some al \<Rightarrow>
                    (let w3 = w2\<lparr>alerts_store := (alerts_store w2)(sid \<mapsto>
                                al @ [\<lparr>alert_time = isoformat now, severity = sev, reason = rsn\<rparr>])\<rparr>
                     in if sev = Some ''high''
                        then (let bot_text = warning_sign @ '' This sounds serious: '' @ fmt_opt rsn @
                                    ''. Please call emergency services or contact your doctor immediately.''
                              in ((200, bot_text), update_history sid msg bot_text w3))
                        else if sev = Some ''medium''
                        then (let bot_text = ''I noticed: '' @ fmt_opt rsn @
                                    ''. Please consider contacting your doctor '' @ em_dash @
                                    '' I will log this and notify them if needed.''
                              in ((200, bot_text), update_history sid msg bot_text w3))
                        else chat_steps sid msg now ti reply w3))
          else chat_steps sid msg now ti reply w2))"
    unfolding chat_def
    by (simp only: assms(1) assms(2) prod.case sum.case option.case Let_def m assms(4) if_False)
  then show ?thesis
    by (simp only: detect_and_log_basic_known [OF k] prod.case option.case Let_def)
qed


lemma log_all_other [simp]:
  "conversation_histories (log_all sid now cvs w) = conversation_histories w"
  "alerts_store (log_all sid now cvs w) = alerts_store w"
  "reminders_store (log_all sid now cvs w) = reminders_store w"
  "scheduler_jobs (log_all sid now cvs w) = scheduler_jobs w"
  "token_supply (log_all sid now cvs w) = token_supply w"
  "flask_session (log_all sid now cvs w) = flask_session w"
  by (subst log_all_frame, simp)+

lemma triage_verdict:
  assumes "triage_simple msg = Inr (Some sev, rsn)"
  shows "sev = ''high'' \<or> sev = ''medium''" and "\<exists>r. rsn = Some r"
  using assms
  by (auto simp: triage_simple_def numeric_pain_check_def Let_def split: option.splits if_splits)

lemma extracted_categories:
  "cv \<in> set (extracted msg) \<Longrightarrow>
   fst cv \<in> {''pain'', ''mobility'', ''medication'', ''mood'', ''symptoms'', ''wound''}"
  by (auto simp: extracted_def Let_def split: option.splits if_splits)

lemma extracted_no_reminders: "filter (\<lambda>cv. fst cv = ''reminders'') (extracted msg) = []"
proof -
  have "\<forall>cv \<in> set (extracted msg). fst cv \<noteq> ''reminders''"
    using extracted_categories by fastforce
  then show ?thesis by (simp add: filter_empty_conv)
qed

lemma chat_verdict:
  assumes "get_session_id w = (Inr sid, w1)" and "json_body req = Some jm"
    and "message_of req = msg" and "msg \<noteq> []"
    and "triage_simple msg = Inr (Some sev, rsn)" and "alerts_store w1 sid = Some al"
  shows "chat req now ti reply w =
     ((200, if sev = ''high''
            then warning_sign @ '' This sounds serious: '' @ fmt_opt rsn @
                 ''. Please call emergency services or contact your doctor immediately.''
            else ''I noticed: '' @ fmt_opt rsn @ ''. Please consider contacting your doctor '' @
                 em_dash @ '' I will log this and notify them if needed.''),
      update_history sid msg
        (if sev = ''high''
         then warning_sign @ '' This sounds serious: '' @ fmt_opt rsn @
              ''. Please call emergency services or contact your doctor immediately.''
         else ''I noticed: '' @ fmt_opt rsn @ ''. Please consider contacting your doctor '' @
              em_dash @ '' I will log this and notify them if needed.'')
        ((log_all sid (isoformat now) (extracted msg) w1)
           \<lparr>alerts_store := (alerts_store w1)(sid \<mapsto>
              al @ [\<lparr>alert_time = isoformat now, severity = Some sev, reason = rsn\<rparr>])\<rparr>))"
proof -
  from triage_verdict(1) [OF assms(5)] have hm: "sev = ''high'' \<or> sev = ''medium''" .
  then have t: "truthy (Some sev)" by (auto simp: truthy_def)
  show ?thesis
    using hm t assms(5,6)
    by (auto simp: chat_message [OF assms(1-4)] Let_def simp del: log_all.simps)
qed


text \<open>
  Claim C7.  When \<open>triage_simple\<close> yields a verdict on the message of a request, the
  verdict is \<open>high\<close> or \<open>medium\<close> and \<open>chat\<close> short-circuits.  Its answer is the canned
  escalation or advisory text, and the state it leaves is the state after the session
  was resolved, changed by exactly this: the entries the extraction logged, one alert
  appended to the session's alerts, and one history turn (the message and the canned
  answer).  Nothing else happens: the answer and the state do not depend on the reply
  of the language model nor on the time information, so no model call and no later step
  takes part; the reminder registry, the scheduler's jobs and the session's reminder
  list are as before, so no reminder is parsed or scheduled.
\<close>

theorem verdict_short_circuits:
  assumes "get_session_id w = (Inr sid, w1)" and "json_body req = Some jm"
    and "message_of req = msg" and "msg \<noteq> []"
    and "triage_simple msg = Inr (Some sev, rsn)"
  shows "(sev = ''high'' \<or> sev = ''medium'')
    \<and> (\<exists>al. alerts_store w1 sid = Some al \<and>
          chat req now ti reply w =
            ((200, if sev = ''high''
                   then warning_sign @ '' This sounds serious: '' @ fmt_opt rsn @
                        ''. Please call emergency services or contact your doctor immediately.''
                   else ''I noticed: '' @ fmt_opt rsn @ ''. Please consider contacting your doctor '' @
                        em_dash @ '' I will log this and notify them if needed.''),
             update_history sid msg
               (if sev = ''high''
                then warning_sign @ '' This sounds serious: '' @ fmt_opt rsn @
                     ''. Please call emergency services or contact your doctor immediately.''
                else ''I noticed: '' @ fmt_opt rsn @ ''. Please consider contacting your doctor '' @
                     em_dash @ '' I will log this and notify them if needed.'')
               ((log_all sid (isoformat now) (extracted msg) w1)
                  \<lparr>alerts_store := (alerts_store w1)(sid \<mapsto>
                     al @ [\<lparr>alert_time = isoformat now, severity = Some sev, reason = rsn\<rparr>])\<rparr>)))
    \<and> chat req now ti reply w = chat req now ti' reply' w
    \<and> reminders_store (snd (chat req now ti reply w)) = reminders_store w
    \<and> scheduler_jobs (snd (chat req now ti reply w)) = scheduler_jobs w
    \<and> entries (snd (chat req now ti reply w)) sid ''reminders'' = entries w1 sid ''reminders''"
proof -
  from get_session_id_Inr [OF assms(1)] have k: "in_logs w1 sid"
    and a: "alerts_store w1 sid \<noteq> None"
    and r: "reminders_store w1 = reminders_store w" and j: "scheduler_jobs w1 = scheduler_jobs w"
    by simp_all
  from a obtain al where al: "alerts_store w1 sid = Some al" by blast
  note c = chat_verdict [OF assms al]
  have "entries (snd (chat req now ti reply w)) sid ''reminders'' =
        entries (log_all sid (isoformat now) (extracted msg) w1) sid ''reminders''"
    by (simp add: c entries_def del: log_all.simps)
  also have "\<dots> = entries w1 sid ''reminders''"
    by (simp add: entries_log_all [OF k] extracted_no_reminders del: log_all.simps)
  finally have e: "entries (snd (chat req now ti reply w)) sid ''reminders'' = entries w1 sid ''reminders''" .
  have i: "chat req now ti reply w = chat req now ti' reply' w"
    by (simp only: c)
  have rs: "reminders_store (snd (chat req now ti reply w)) = reminders_store w"
    by (simp add: c r del: log_all.simps)
  have sj: "scheduler_jobs (snd (chat req now ti reply w)) = scheduler_jobs w"
    by (simp add: c j del: log_all.simps)
  from al c [of now ti reply] have x: "\<exists>al. alerts_store w1 sid = Some al \<and>
          chat req now ti reply w =
            ((200, if sev = ''high''
                   then warning_sign @ '' This sounds serious: '' @ fmt_opt rsn @
                        ''. Please call emergency services or contact your doctor immediately.''
                   else ''I noticed: '' @ fmt_opt rsn @ ''. Please consider contacting your doctor '' @
                        em_dash @ '' I will log this and notify them if needed.''),
             update_history sid msg
               (if sev = ''high''
                then warning_sign @ '' This sounds serious: '' @ fmt_opt rsn @
                     ''. Please call emergency services or contact your doctor immediately.''
                else ''I noticed: '' @ fmt_opt rsn @ ''. Please consider contacting your doctor '' @
                     em_dash @ '' I will log this and notify them if needed.'')
               ((log_all sid (isoformat now) (extracted msg) w1)
                  \<lparr>alerts_store := (alerts_store w1)(sid \<mapsto>
                     al @ [\<lparr>alert_time = isoformat now, severity = Some sev, reason = rsn\<rparr>])\<rparr>))"
    by blast
  from triage_verdict(1) [OF assms(5)] x i rs sj e show ?thesis by (intro conjI)
qed

lemma get_session_id_demo: "get_session_id demo_world = (Inr ''s1'', demo_world)"
  by (rule get_session_id_known) (simp_all add: demo_world_def)

lemma triage_dizzy:
  "triage_simple ''pain is 8, I feel dizzy'' = Inr (Some ''medium'', Some ''Possible complication: dizzy'')"
  by code_simp

text \<open>
  The theorem at the message "pain is 8, I feel dizzy": the keyword "dizzy" decides,
  before the numeric pain check, and one alert is appended.
\<close>

theorem verdict_short_circuits_witness:
  "get_session_id demo_world = (Inr ''s1'', demo_world) \<and>
   triage_simple ''pain is 8, I feel dizzy'' = Inr (Some ''medium'', Some ''Possible complication: dizzy'') \<and>
   alerts_store (snd (chat \<lparr>json_body = Some (Some ''pain is 8, I feel dizzy''), form_message = None\<rparr>
                        demo_now demo_ti (Inl ModelError) demo_world)) ''s1'' =
     Some [\<lparr>alert_time = isoformat demo_now, severity = Some ''medium'',
            reason = Some ''Possible complication: dizzy''\<rparr>]"
proof -
  let ?req = "\<lparr>json_body = Some (Some ''pain is 8, I feel dizzy''), form_message = None\<rparr>"
  have jb: "json_body ?req = Some (Some ''pain is 8, I feel dizzy'')" by simp
  have mo: "message_of ?req = ''pain is 8, I feel dizzy''" by (simp add: message_of_def)
  have ne: "''pain is 8, I feel dizzy'' \<noteq> []" by simp
  have a0: "alerts_store demo_world ''s1'' = Some []" by (simp add: demo_world_def)
  from verdict_short_circuits [OF get_session_id_demo jb mo ne triage_dizzy,
      of demo_now demo_ti "Inl ModelError"]
  obtain al where al: "alerts_store demo_world ''s1'' = Some al"
    and c: "chat ?req demo_now demo_ti (Inl ModelError) demo_world =
      ((200, ''I noticed: '' @ fmt_opt (Some ''Possible complication: dizzy'') @
             ''. Please consider contacting your doctor '' @
             em_dash @ '' I will log this and notify them if needed.''),
       update_history ''s1'' ''pain is 8, I feel dizzy''
         (''I noticed: '' @ fmt_opt (Some ''Possible complication: dizzy'') @
          ''. Please consider contacting your doctor '' @
          em_dash @ '' I will log this and notify them if needed.'')
         ((log_all ''s1'' (isoformat demo_now) (extracted ''pain is 8, I feel dizzy'') demo_world)
            \<lparr>alerts_store := (alerts_store demo_world)(''s1'' \<mapsto>
               al @ [\<lparr>alert_time = isoformat demo_now, severity = Some ''medium'',
                      reason = Some ''Possible complication: dizzy''\<rparr>])\<rparr>))"
    by (auto simp del: log_all.simps)
  from al a0 have "al = []" by simp
  with c have "alerts_store (snd (chat ?req demo_now demo_ti (Inl ModelError) demo_world)) ''s1'' =
     Some [\<lparr>alert_time = isoformat demo_now, severity = Some ''medium'',
            reason = Some ''Possible complication: dizzy''\<rparr>]"
    by (simp del: log_all.simps)
  with get_session_id_demo triage_dizzy show ?thesis by (intro conjI)
qed






section \<open>The wound-photo step\<close>

lemma wound_rx_literals:
  assumes "rmatch True wound_rx (p, s, []) \<noteq> []"
  shows "lit_ok True ''upload '' s \<or> lit_ok True ''i have uploaded'' s \<or>
         lit_ok True ''i uploaded'' s \<or> lit_ok True ''wound photo'' s"
proof (rule ccontr)
  assume n: "\<not> ?thesis"
  have "rmatch True wound_rx (p, s, []) = []"
    using n by (simp add: wound_rx_def)
  with assms show False by simp
qed

lemma lit_ok_prefix:
  assumes "lit_ok True w s" and "lower w = w"
  shows "prefix w (lower s)"
proof -
  from assms have "lower (take (length w) s) = w" by (simp add: lit_ok_def)
  then have "take (length w) (lower s) = w" by (simp add: lower_def take_map)
  then show ?thesis by (metis take_is_prefix)
qed

lemma prefix_contains: "prefix w t \<Longrightarrow> contains w t"
  unfolding contains_iff prefix_def by (metis append_Nil)

lemma contains_trans: "contains u w \<Longrightarrow> contains w t \<Longrightarrow> contains u t"
  unfolding contains_iff by (metis append.assoc)

lemma contains_suffix: "suffix s' s \<Longrightarrow> contains w (lower s') \<Longrightarrow> contains w (lower s)"
  unfolding contains_iff suffix_def by (metis append.assoc lower_append)

lemma wound_search_contains:
  assumes "re_search True wound_rx msg \<noteq> None"
  shows "contains ''upload'' (lower msg) \<or> contains ''wound'' (lower msg)"
proof -
  from assms obtain m where "re_search True wound_rx msg = Some m" by blast
  from re_search_Some [OF this] obtain p' s' where
    sf: "suffix s' msg" and r: "rmatch True wound_rx (p', s', []) \<noteq> []" by blast
  have u1: "contains ''upload'' ''upload ''" and u2: "contains ''upload'' ''i have uploaded''"
    and u3: "contains ''upload'' ''i uploaded''" and u4: "contains ''wound'' ''wound photo''"
    by simp_all
  have l: "lower ''upload '' = ''upload ''" "lower ''i have uploaded'' = ''i have uploaded''"
    "lower ''i uploaded'' = ''i uploaded''" "lower ''wound photo'' = ''wound photo''"
    by (simp_all add: lower_def lower_char_def)
  from wound_rx_literals [OF r]
  have "contains ''upload'' (lower s') \<or> contains ''wound'' (lower s')"
    using u1 u2 u3 u4 l
    by (meson contains_trans lit_ok_prefix prefix_contains)
  with sf show ?thesis by (meson contains_suffix)
qed

lemma extracted_wound:
  assumes "contains ''upload'' (lower msg) \<or> contains ''wound'' (lower msg)"
  shows "filter (\<lambda>cv. fst cv = ''wound'') (extracted msg) = [(''wound'', msg)]"
  using assms by (auto simp: extracted_def Let_def split: option.splits)

lemma chat_wound_step:
  assumes "in_logs w sid" and "re_search True time_rx msg = None"
    and "re_search True remind_rx msg = None" and "re_search True wound_rx msg \<noteq> None"
  shows "entries (snd (chat_steps sid msg now ti reply w)) sid ''wound'' =
           entries w sid ''wound'' @ [LogEntry (isoformat now) msg]"
  using assms
  by (simp add: chat_steps_def log_patient_data_known Let_def entries_add_entry)

lemma chat_no_verdict:
  assumes "get_session_id w = (Inr sid, w1)" and "json_body req = Some jm"
    and "message_of req = msg" and "msg \<noteq> []" and "triage_simple msg = Inr (None, None)"
  shows "chat req now ti reply w =
           chat_steps sid msg now ti reply (log_all sid (isoformat now) (extracted msg) w1)"
  using assms(5)
  by (simp add: chat_message [OF assms(1-4)] truthy_def del: log_all.simps)

text \<open>
  Claim C10.  A single message can produce two wound log entries.  For every non-empty
  message that yields no triage verdict, matches neither the time query nor the reminder
  pattern, and matches the wound-photo pattern, \<open>chat\<close> appends two entries to the
  session's wound category, both with the raw message as value: one by the wound rule
  of \<open>detect_and_log_basic\<close> (every text the wound-photo pattern matches contains
  "upload" or "wound") and one by the wound-photo step.  The bound of one entry per
  category and message, which holds for the extraction, does not hold for the handler.
\<close>

theorem wound_photo_logged_twice:
  assumes "get_session_id w = (Inr sid, w1)" and "json_body req = Some jm"
    and "message_of req = msg" and "msg \<noteq> []" and "triage_simple msg = Inr (None, None)"
    and "re_search True time_rx msg = None" and "re_search True remind_rx msg = None"
    and "re_search True wound_rx msg \<noteq> None"
  shows "entries (snd (chat req now ti reply w)) sid ''wound'' =
           entries w1 sid ''wound'' @ [LogEntry (isoformat now) msg, LogEntry (isoformat now) msg]"
proof -
  let ?w2 = "log_all sid (isoformat now) (extracted msg) w1"
  from get_session_id_Inr(1) [OF assms(1)] have k: "in_logs w1 sid" .
  then have k2: "in_logs ?w2 sid" by (rule log_all_known)
  from wound_search_contains [OF assms(8)]
  have f: "filter (\<lambda>cv. fst cv = ''wound'') (extracted msg) = [(''wound'', msg)]"
    by (rule extracted_wound)
  have "entries ?w2 sid ''wound'' = entries w1 sid ''wound'' @ [LogEntry (isoformat now) msg]"
    by (simp add: entries_log_all [OF k] f del: log_all.simps)
  with chat_wound_step [OF k2 assms(6,7,8), of now ti reply] chat_no_verdict [OF assms(1-5), of now ti reply]
  show ?thesis by (simp del: log_all.simps)
qed

lemma wound_example:
  "triage_simple ''I uploaded a wound photo'' = Inr (None, None)"
  "re_search True time_rx ''I uploaded a wound photo'' = None"
  "re_search True remind_rx ''I uploaded a wound photo'' = None"
  "re_search True wound_rx ''I uploaded a wound photo'' = Some [(1, ''I uploaded'')]"
  by code_simp+

text \<open>
  The theorem at the message "I uploaded a wound photo" in the session \<open>s1\<close>.
\<close>

theorem wound_photo_logged_twice_witness:
  "get_session_id demo_world = (Inr ''s1'', demo_world) \<and>
   triage_simple ''I uploaded a wound photo'' = Inr (None, None) \<and>
   re_search True time_rx ''I uploaded a wound photo'' = None \<and>
   re_search True remind_rx ''I uploaded a wound photo'' = None \<and>
   re_search True wound_rx ''I uploaded a wound photo'' = Some [(1, ''I uploaded'')] \<and>
   entries (snd (chat \<lparr>json_body = Some (Some ''I uploaded a wound photo''), form_message = None\<rparr>
                   demo_now demo_ti (Inl ModelError) demo_world)) ''s1'' ''wound'' =
     [LogEntry (isoformat demo_now) ''I uploaded a wound photo'',
      LogEntry (isoformat demo_now) ''I uploaded a wound photo'']"
proof -
  let ?req = "\<lparr>json_body = Some (Some ''I uploaded a wound photo''), form_message = None\<rparr>"
  have jb: "json_body ?req = Some (Some ''I uploaded a wound photo'')" by simp
  have mo: "message_of ?req = ''I uploaded a wound photo''" by (simp add: message_of_def)
  have ne: "''I uploaded a wound photo'' \<noteq> []" by simp
  have wx: "re_search True wound_rx ''I uploaded a wound photo'' \<noteq> None"
    by (simp add: wound_example(4))
  have e0: "entries demo_world ''s1'' ''wound'' = []"
    by (simp add: entries_def demo_world_def empty_logs_def)
  from wound_photo_logged_twice [OF get_session_id_demo jb mo ne wound_example(1,2,3) wx,
      of demo_now demo_ti "Inl ModelError"] e0
  have "entries (snd (chat ?req demo_now demo_ti (Inl ModelError) demo_world)) ''s1'' ''wound'' =
     [LogEntry (isoformat demo_now) ''I uploaded a wound photo'',
      LogEntry (isoformat demo_now) ''I uploaded a wound photo'']" by simp
  with get_session_id_demo wound_example show ?thesis by (intro conjI)
qed



section \<open>The time of a reminder\<close>

text \<open>
  The time token of \<open>when_part\<close> is the leftmost run of one or two digits, with an
  optional \<open>:MM\<close> and an optional am/pm mark.  When its hour is at most 23 and its
  minute at most 59, \<open>when_dt\<close> is the current date at that hour and minute, a day later
  when that is not after \<open>now\<close>; without any digit, \<open>when_dt\<close> is \<open>now\<close> plus one minute.
  With an hour above 23 or a minute above 59, \<open>now.replace\<close> raises \<open>ValueError\<close>.
\<close>

lemma chat_when_dt_token:
  assumes "re_search True hm_rx when_part = Some hm" and "group hm 1 = Some g1"
    and "token_hour g1 (lower (case group hm 3 of None \<Rightarrow> [] | Some a \<Rightarrow> a)) = h"
    and "token_minute (group hm 2) = m"
    and "h \<le> 23" and "m \<le> 59"
  shows "chat_when_dt now when_part =
     Inr (if dt_le (now\<lparr>hour := h, minute := m, second := 0, microsecond := 0\<rparr>) now
          then add_day (now\<lparr>hour := h, minute := m, second := 0, microsecond := 0\<rparr>)
          else now\<lparr>hour := h, minute := m, second := 0, microsecond := 0\<rparr>)"
  using assms
  by (simp add: chat_when_dt_def token_hour_def token_minute_def Let_def replace_hm_def bind_exn_def)

lemma chat_when_dt_no_token:
  "re_search True hm_rx when_part = None \<Longrightarrow> chat_when_dt now when_part = Inr (add_minute now)"
  by (simp add: chat_when_dt_def)

lemma chat_when_dt_out_of_range:
  assumes "re_search True hm_rx when_part = Some hm" and "group hm 1 = Some g1"
    and "token_hour g1 (lower (case group hm 3 of None \<Rightarrow> [] | Some a \<Rightarrow> a)) = h"
    and "token_minute (group hm 2) = m"
    and "23 < h \<or> 59 < m"
  shows "chat_when_dt now when_part = Inl ValueError"
  using assms
  by (auto simp: chat_when_dt_def token_hour_def token_minute_def Let_def replace_hm_def bind_exn_def)

lemma when_5pm_at_6pm: "chat_when_dt demo_6pm ''5 pm'' = Inr next_5pm"
  by code_simp

lemma when_5pm_at_3pm_plain: "chat_when_dt demo_now ''5 pm'' = Inr demo_5pm"
  by code_simp

lemma when_25: "chat_when_dt demo_now (strip ''25'') = Inl ValueError"
  by code_simp

lemma remind_25:
  "triage_simple ''remind me at 25 to call the doctor'' = Inr (None, None)"
  "extracted ''remind me at 25 to call the doctor'' = []"
  "re_search True time_rx ''remind me at 25 to call the doctor'' = None"
  "re_search True remind_rx ''remind me at 25 to call the doctor'' =
     Some [(2, ''call the doctor''), (1, ''25'')]"
  by code_simp+

text \<open>
  Claim C4.  The claim leaves two outcomes for a parsed reminder: the current date at the
  token's hour and minute (possibly a day later), or \<open>now\<close> plus one minute.  On the
  message "remind me at 25 to call the doctor" the code takes neither: the token "25"
  is read as the hour 25, \<open>now.replace(hour=25, ...)\<close> raises \<open>ValueError\<close>, the
  \<open>except\<close> clause of \<open>chat\<close> answers with its apology, and no reminder is registered
  or scheduled: the state is the one before the request.
\<close>

theorem reminder_hour_out_of_range:
  "chat \<lparr>json_body = Some (Some ''remind me at 25 to call the doctor''), form_message = None\<rparr>
        demo_now demo_ti (Inl ModelError) demo_world = (trouble, demo_world)"
proof -
  let ?msg = "''remind me at 25 to call the doctor''"
  let ?req = "\<lparr>json_body = Some (Some ?msg), form_message = None\<rparr>"
  have jb: "json_body ?req = Some (Some ?msg)" by simp
  have mo: "message_of ?req = ?msg" by (simp add: message_of_def)
  have ne: "?msg \<noteq> []" by simp
  have "chat ?req demo_now demo_ti (Inl ModelError) demo_world =
        chat_steps ''s1'' ?msg demo_now demo_ti (Inl ModelError)
          (log_all ''s1'' (isoformat demo_now) (extracted ?msg) demo_world)"
    by (rule chat_no_verdict [OF get_session_id_demo jb mo ne remind_25(1)])
  also have "\<dots> = chat_steps ''s1'' ?msg demo_now demo_ti (Inl ModelError) demo_world"
    by (simp add: remind_25(2))
  also have "\<dots> = chat_reminder ''s1'' ?msg demo_now [(2, ''call the doctor''), (1, ''25'')] demo_world"
    by (simp add: chat_steps_def remind_25(3,4))
  also have "\<dots> = (trouble, demo_world)"
    by (simp add: chat_reminder_def group_def when_25)
  finally show ?thesis .
qed


end
